theory Spec2Isabelle
  imports Main "HOL-Library.AList" "HOL-Library.List_Lexorder" "HOL-Library.Char_ord"
begin

section \<open>JavaScript values\<close>

text \<open>
  The stores take a payload of type \<open>unknown\<close>: any JavaScript value. A plain object is a
  finite map from property names to values (property order is not observable through the
  store contract); an array is the list of its elements. Numbers are carried opaquely: the
  stores never compute on them. A function is carried by its name: the functions that the
  stores meet are the members of \<open>Object.prototype\<close> that a property read inherits.
\<close>

datatype jsval =
    JUndefined
  | JNull
  | JBool bool
  | JNum int
  | JStr string
  | JArr "jsval list"
  | JObj "string \<Rightarrow> jsval option"
  | JFunction string

type_synonym obj = "string \<Rightarrow> jsval option"

text \<open>\<open>!v\<close> is \<open>\<not> truthy v\<close>; \<open>typeof v\<close> as the language defines it
  (\<open>typeof null\<close> is \<open>"object"\<close>).\<close>

fun truthy :: "jsval \<Rightarrow> bool" where
  "truthy JUndefined = False"
| "truthy JNull = False"
| "truthy (JBool b) = b"
| "truthy (JNum n) = (n \<noteq> 0)"
| "truthy (JStr s) = (s \<noteq> [])"
| "truthy (JArr vs) = True"
| "truthy (JObj m) = True"
| "truthy (JFunction f) = True"

fun typeof :: "jsval \<Rightarrow> string" where
  "typeof JUndefined = ''undefined''"
| "typeof JNull = ''object''"
| "typeof (JBool b) = ''boolean''"
| "typeof (JNum n) = ''number''"
| "typeof (JStr s) = ''string''"
| "typeof (JArr vs) = ''object''"
| "typeof (JObj m) = ''object''"
| "typeof (JFunction f) = ''function''"


text \<open>\<open>String(n)\<close> for a non-negative integer \<open>n\<close>: its decimal digits.\<close>

definition digit :: "nat \<Rightarrow> char" where
  "digit d = ''0123456789'' ! d"

function dec :: "nat \<Rightarrow> string" where
  "dec n = (if n < 10 then [digit n] else dec (n div 10) @ [digit (n mod 10)])"
  by pat_completeness auto
termination
  by (relation "measure id") auto

text \<open>The own enumerable properties of a value, as object rest and spread read them: the
  properties of a plain object, the indices of an array, nothing for a primitive or a
  function.\<close>

fun own_props :: "jsval \<Rightarrow> obj" where
  "own_props (JObj m) = m"
| "own_props (JArr vs) = map_of (zip (map dec [0..<length vs]) vs)"
| "own_props v = Map.empty"

text \<open>\<open>v[key]\<close> for a key that no prototype defines (\<open>id\<close>, \<open>createdAt\<close>,
  \<open>updatedAt\<close>, \<open>items\<close>, \<open>_id\<close>, \<open>toHexString\<close>): the own property,
  \<open>undefined\<close> when it is missing.\<close>

definition get_prop :: "jsval \<Rightarrow> string \<Rightarrow> jsval" where
  "get_prop v key = (case own_props v key of None \<Rightarrow> JUndefined | Some x \<Rightarrow> x)"

text \<open>
  A plain object inherits from \<open>Object.prototype\<close>: reading a property that the object does
  not own gives the member of \<open>Object.prototype\<close> of that name when there is one: a
  function, or for \<open>__proto__\<close> the prototype itself, an object with no enumerable
  property. Assigning to \<open>__proto__\<close> calls the inherited setter and creates no own
  property.
\<close>

definition objectPrototypeFunctions :: "string list" where
  "objectPrototypeFunctions =
     [''constructor'', ''__defineGetter__'', ''__defineSetter__'', ''hasOwnProperty'',
      ''__lookupGetter__'', ''__lookupSetter__'', ''isPrototypeOf'', ''propertyIsEnumerable'',
      ''toString'', ''valueOf'', ''toLocaleString'']"

definition objectPrototypeKeys :: "string list" where
  "objectPrototypeKeys = ''__proto__'' # objectPrototypeFunctions"

definition proto_get :: "string \<Rightarrow> jsval" where
  "proto_get key =
     (if key = ''__proto__'' then JObj Map.empty
      else if key \<in> set objectPrototypeFunctions then JFunction key
      else JUndefined)"

text \<open>\<open>raw[key]\<close> on a plain object \<open>raw\<close>.\<close>

definition obj_get :: "obj \<Rightarrow> string \<Rightarrow> jsval" where
  "obj_get raw key = (case raw key of None \<Rightarrow> proto_get key | Some v \<Rightarrow> v)"

text \<open>\<open>target[key] = value\<close> on a plain object \<open>target\<close> that is a list of key and
  value in the order the keys are first assigned.\<close>

definition obj_assign :: "string \<Rightarrow> 'a \<Rightarrow> (string \<times> 'a) list \<Rightarrow> (string \<times> 'a) list" where
  "obj_assign key v target = (if key = ''__proto__'' then target else AList.update key v target)"

section \<open>Sanitization\<close>

text \<open>
  \<open>sanitizeClientPayload\<close> (the same function in the memory store, the file store, the
  relational and the document adapter): a payload that is falsy or not of type object gives
  \<open>{}\<close>; otherwise the payload's own properties without \<open>id\<close>, \<open>createdAt\<close> and
  \<open>updatedAt\<close>.
\<close>

definition sanitizeClientPayload :: "jsval \<Rightarrow> obj" where
  "sanitizeClientPayload payload =
     (if \<not> truthy payload \<or> typeof payload \<noteq> ''object'' then Map.empty
      else own_props payload |` (- {''id'', ''createdAt'', ''updatedAt''}))"

section \<open>Memory store\<close>

text \<open>
  A stored item is an object with \<open>id\<close>, \<open>createdAt\<close>, \<open>updatedAt\<close> and further fields.
  The store's \<open>Map<string, CrudItem>\<close> keeps its entries in insertion order, so it is an
  association list: \<open>Map.set\<close> replaces the value of a present key in place and appends an
  absent key, \<open>Map.delete\<close> removes the entry and tells whether there was one, and
  \<open>Map.values\<close> lists the values in entry order.
\<close>

type_synonym CrudItem = obj
type_synonym items = "(string \<times> CrudItem) list"

definition Map_get :: "items \<Rightarrow> string \<Rightarrow> CrudItem option" where
  "Map_get items k = map_of items k"

definition Map_set :: "string \<Rightarrow> CrudItem \<Rightarrow> items \<Rightarrow> items" where
  "Map_set k v items = AList.update k v items"

definition Map_delete :: "items \<Rightarrow> string \<Rightarrow> items \<times> bool" where
  "Map_delete items k =
     (AList.delete k items, (case map_of items k of None \<Rightarrow> False | Some _ \<Rightarrow> True))"

definition Map_values :: "items \<Rightarrow> CrudItem list" where
  "Map_values items = map snd items"

text \<open>\<open>item.id\<close> of an item whose \<open>id\<close> is a string (the type \<open>CrudItem\<close> says it is).\<close>

definition item_id :: "CrudItem \<Rightarrow> string" where
  "item_id item = (case item ''id'' of Some (JStr s) \<Rightarrow> s | _ \<Rightarrow> [])"


text \<open>
  The operations of \<open>createInMemoryStore\<close>. The store starts with an empty map. What
  \<open>randomUUID()\<close> and \<open>nowIso()\<close> return during a call are arguments (\<open>uuid\<close>,
  \<open>now\<close>); each operation returns the new map and its result. None of them has a path
  that throws.
\<close>

definition createInMemoryStore :: items where
  "createInMemoryStore = []"

definition mem_getAll :: "items \<Rightarrow> CrudItem list" where
  "mem_getAll items = Map_values items"

definition mem_getById :: "items \<Rightarrow> string \<Rightarrow> CrudItem option" where
  "mem_getById items i = Map_get items i"

definition mem_create :: "items \<Rightarrow> jsval \<Rightarrow> string \<Rightarrow> string \<Rightarrow> items \<times> CrudItem" where
  "mem_create items payload uuid now =
     (let item = [''id'' \<mapsto> JStr uuid, ''createdAt'' \<mapsto> JStr now, ''updatedAt'' \<mapsto> JStr now]
                   ++ sanitizeClientPayload payload
      in (Map_set (item_id item) item items, item))"

definition mem_update ::
  "items \<Rightarrow> string \<Rightarrow> jsval \<Rightarrow> string \<Rightarrow> items \<times> CrudItem option" where
  "mem_update items i payload now =
     (case Map_get items i of
        None \<Rightarrow> (items, None)
      | Some existing \<Rightarrow>
          (let updated = (existing ++ sanitizeClientPayload payload)(''updatedAt'' \<mapsto> JStr now)
           in (Map_set i updated items, Some updated)))"

definition mem_delete :: "items \<Rightarrow> string \<Rightarrow> items \<times> bool" where
  "mem_delete items i = Map_delete items i"

section \<open>File store\<close>

text \<open>
  The file system, as far as the file store uses it: a map from paths to file contents.
  Directories are not modelled (\<open>mkdirSync\<close> with \<open>recursive\<close> changes no file). An
  operation that throws returns \<open>Inl\<close> with the error's code.
\<close>

type_synonym fs = "string \<Rightarrow> string option"



definition writeFileSync :: "fs \<Rightarrow> string \<Rightarrow> string \<Rightarrow> fs" where
  "writeFileSync files p c = files(p \<mapsto> c)"

definition renameSync :: "fs \<Rightarrow> string \<Rightarrow> string \<Rightarrow> string + fs" where
  "renameSync files old new =
     (case files old of
        None \<Rightarrow> Inl ''ENOENT''
      | Some c \<Rightarrow> Inr ((files(old := None))(new \<mapsto> c)))"




text \<open>
  \<open>atomicWriteJson\<close>: the temporary path is the target path with the suffix
  \<open>.tmp-<pid>-<Date.now()>\<close>; the text is written there and the temporary file is renamed
  over the target. \<open>JSON_stringify\<close> is \<open>JSON.stringify(_, null, 2)\<close>.
\<close>

definition tempPath :: "string \<Rightarrow> nat \<Rightarrow> nat \<Rightarrow> string" where
  "tempPath filePath pid ms = filePath @ ''.tmp-'' @ dec pid @ ''-'' @ dec ms"

definition atomicWriteJson ::
  "(jsval \<Rightarrow> string) \<Rightarrow> nat \<Rightarrow> nat \<Rightarrow> fs \<Rightarrow> string \<Rightarrow> jsval \<Rightarrow> string + fs" where
  "atomicWriteJson JSON_stringify pid ms files filePath data =
     (let json = JSON_stringify data;
          files1 = writeFileSync files (tempPath filePath pid ms) json
      in renameSync files1 (tempPath filePath pid ms) filePath)"

text \<open>
  The store of \<open>createJsonFileStore\<close>: the file system and the in-memory map. The
  environment of a store is fixed when it is made: the parser, the printer, the process id
  and the file path.
\<close>

record JsonEnv =
  JSON_parse :: "string \<Rightarrow> jsval option"
  JSON_stringify :: "jsval \<Rightarrow> string"
  pid :: nat
  filePath :: string

type_synonym JsonFileStore = "fs \<times> items"


definition flush :: "JsonEnv \<Rightarrow> nat \<Rightarrow> fs \<Rightarrow> items \<Rightarrow> string + fs" where
  "flush env ms files items =
     atomicWriteJson (JSON_stringify env) (pid env) ms files (filePath env)
       (JObj [''items'' \<mapsto> JArr (map JObj (Map_values items))])"

text \<open>
  The operations. \<open>uuid\<close> and \<open>now\<close> are as in the memory store, \<open>ms\<close> is what
  \<open>Date.now()\<close> returns inside \<open>atomicWriteJson\<close>. A mutation returns \<open>Inl\<close> when the
  flush throws.
\<close>

definition json_getAll :: "JsonFileStore \<Rightarrow> CrudItem list" where
  "json_getAll st = Map_values (snd st)"

definition json_getById :: "JsonFileStore \<Rightarrow> string \<Rightarrow> CrudItem option" where
  "json_getById st i = Map_get (snd st) i"

definition json_create ::
  "JsonEnv \<Rightarrow> JsonFileStore \<Rightarrow> jsval \<Rightarrow> string \<Rightarrow> string \<Rightarrow> nat \<Rightarrow>
   string + JsonFileStore \<times> CrudItem" where
  "json_create env st payload uuid now ms =
     (let item = [''id'' \<mapsto> JStr uuid, ''createdAt'' \<mapsto> JStr now, ''updatedAt'' \<mapsto> JStr now]
                   ++ sanitizeClientPayload payload;
          items' = Map_set (item_id item) item (snd st)
      in case flush env ms (fst st) items' of
           Inl e \<Rightarrow> Inl e
         | Inr files' \<Rightarrow> Inr ((files', items'), item))"

definition json_update ::
  "JsonEnv \<Rightarrow> JsonFileStore \<Rightarrow> string \<Rightarrow> jsval \<Rightarrow> string \<Rightarrow> nat \<Rightarrow>
   string + JsonFileStore \<times> CrudItem option" where
  "json_update env st i payload now ms =
     (case Map_get (snd st) i of
        None \<Rightarrow> Inr (st, None)
      | Some existing \<Rightarrow>
          (let updated = (existing ++ sanitizeClientPayload payload)(''updatedAt'' \<mapsto> JStr now);
               items' = Map_set i updated (snd st)
           in case flush env ms (fst st) items' of
                Inl e \<Rightarrow> Inl e
              | Inr files' \<Rightarrow> Inr ((files', items'), Some updated)))"

definition json_delete ::
  "JsonEnv \<Rightarrow> JsonFileStore \<Rightarrow> string \<Rightarrow> nat \<Rightarrow> string + JsonFileStore \<times> bool" where
  "json_delete env st i ms =
     (let (items', didDelete) = Map_delete (snd st) i
      in if didDelete then
           (case flush env ms (fst st) items' of
              Inl e \<Rightarrow> Inl e
            | Inr files' \<Rightarrow> Inr ((files', items'), True))
         else Inr ((fst st, items'), False))"

section \<open>Models\<close>

datatype FieldType = TString | TNumber | TBoolean

record FieldDefinition =
  ftype :: FieldType
  isOptional :: bool

type_synonym ModelSchema = "(string \<times> FieldDefinition) list"

record ModelDefinition =
  model_name :: string
  model_schema :: ModelSchema

text \<open>\<open>for (const key in schema)\<close> visits the schema's keys in order.\<close>

definition schema_keys :: "ModelSchema \<Rightarrow> string list" where
  "schema_keys sch = map fst sch"

text \<open>A schema none of whose keys names a member of \<open>Object.prototype\<close>.\<close>

definition protoFree :: "ModelSchema \<Rightarrow> bool" where
  "protoFree sch = list_all (\<lambda>key. key \<notin> set objectPrototypeKeys) (schema_keys sch)"

text \<open>\<open>toLowerCase\<close> on ASCII letters (a model name is taken to be ASCII).\<close>

definition toLowerCase :: "string \<Rightarrow> string" where
  "toLowerCase s =
     map (\<lambda>c. case map_of (zip ''ABCDEFGHIJKLMNOPQRSTUVWXYZ'' ''abcdefghijklmnopqrstuvwxyz'') c of
                 None \<Rightarrow> c | Some l \<Rightarrow> l) s"

text \<open>\<open>modelToCollectionName\<close>: \<open>base.replace(/[^a-z0-9_]/g, "_")\<close>;
  \<open>modelToTableName\<close>: \<open>base.replace(/[^A-Za-z0-9_]/g, "_")\<close>.\<close>

definition modelToCollectionName :: "ModelDefinition \<Rightarrow> string" where
  "modelToCollectionName model =
     (let base = toLowerCase (model_name model) @ ''s''
      in map (\<lambda>c. if c \<in> set ''abcdefghijklmnopqrstuvwxyz0123456789_'' then c else CHR ''_'')
           base)"

definition modelToTableName :: "ModelDefinition \<Rightarrow> string" where
  "modelToTableName model =
     (let base = toLowerCase (model_name model) @ ''s''
      in map (\<lambda>c. if c \<in> set ''ABCDEFGHIJKLMNOPQRSTUVWXYZabcdefghijklmnopqrstuvwxyz0123456789_''
                    then c else CHR ''_'')
           base)"

section \<open>Document adapter\<close>

text \<open>
  What the adapter takes from the driver and the language: \<open>new ObjectId(raw)\<close>
  (\<open>None\<close> when it throws), \<open>ObjectId.toHexString\<close> and \<open>Date.toISOString\<close>. A
  \<open>Date\<close> is its number of milliseconds.
\<close>

record 'oid MongoRuntime =
  newObjectId :: "string \<Rightarrow> 'oid option"
  toHexString :: "'oid \<Rightarrow> string"
  toISOString :: "nat \<Rightarrow> string"

text \<open>\<open>StoredDoc\<close>: \<open>_id\<close> (optional), the two dates, and the other fields. The
  \<open>_id\<close> is an \<open>ObjectId\<close>, or another value when a payload supplied it (a schema may
  declare a field \<open>_id\<close>).\<close>

datatype 'oid DocId = ObjectId 'oid | Foreign jsval

record 'oid StoredDoc =
  doc_id :: "'oid DocId option"
  createdAt :: nat
  updatedAt :: nat
  rest :: obj

definition asMongoOpError :: "string \<Rightarrow> string option \<Rightarrow> string \<Rightarrow> string" where
  "asMongoOpError op modelName msg =
     (let prefix = (case modelName of
                      None \<Rightarrow> ''MongoDB''
                    | Some n \<Rightarrow> if n = [] then ''MongoDB'' else ''MongoDB ('' @ n @ '')'')
      in prefix @ '' '' @ op @ '' failed: '' @ msg)"

definition tryParseObjectId :: "'oid MongoRuntime \<Rightarrow> string \<Rightarrow> 'oid option" where
  "tryParseObjectId rt raw = newObjectId rt raw"

text \<open>
  \<open>splitStructuredPatch\<close> and \<open>pickStructuredInsert\<close>. The objects they build
  (\<open>set\<close>, \<open>unset\<close>, \<open>picked\<close>) are lists of key and value in the order the keys are
  first assigned.
\<close>

definition splitStructuredPatch ::
  "ModelSchema \<Rightarrow> jsval \<Rightarrow> (string \<times> jsval) list \<times> (string \<times> string) list" where
  "splitStructuredPatch sch payload =
     (let raw = sanitizeClientPayload payload
      in fold (\<lambda>key (set, unset).
                 case obj_get raw key of
                   JUndefined \<Rightarrow> (set, unset)
                 | JNull \<Rightarrow> (set, obj_assign key [] unset)
                 | value \<Rightarrow> (obj_assign key value set, unset))
           (schema_keys sch) ([], []))"

definition pickStructuredInsert :: "ModelSchema \<Rightarrow> jsval \<Rightarrow> (string \<times> jsval) list" where
  "pickStructuredInsert sch payload =
     (let raw = sanitizeClientPayload payload
      in fold (\<lambda>key picked.
                 case obj_get raw key of
                   JUndefined \<Rightarrow> picked
                 | JNull \<Rightarrow> picked
                 | value \<Rightarrow> obj_assign key value picked)
           (schema_keys sch) [])"

text \<open>\<open>docToCrudItem\<close>: throws when the document has no \<open>_id\<close> or a falsy one, and
  when the \<open>_id\<close> is not an \<open>ObjectId\<close>: a value of a payload is data and has no
  method \<open>toHexString\<close>, so that the call is a \<open>TypeError\<close>.\<close>

definition docToCrudItem :: "'oid MongoRuntime \<Rightarrow> 'oid StoredDoc \<Rightarrow> string + CrudItem" where
  "docToCrudItem rt doc =
     (case doc_id doc of
        None \<Rightarrow> Inl ''MongoDB document is missing _id''
      | Some (Foreign v) \<Rightarrow>
          if \<not> truthy v then Inl ''MongoDB document is missing _id''
          else Inl ''_id.toHexString is not a function''
      | Some (ObjectId oid) \<Rightarrow>
          Inr ([''id'' \<mapsto> JStr (toHexString rt oid),
                ''createdAt'' \<mapsto> JStr (toISOString rt (createdAt doc)),
                ''updatedAt'' \<mapsto> JStr (toISOString rt (updatedAt doc))]
               ++ (rest doc |` (- {''_id'', ''createdAt'', ''updatedAt''}))))"

fun docsToCrudItems :: "'oid MongoRuntime \<Rightarrow> 'oid StoredDoc list \<Rightarrow> string + CrudItem list" where
  "docsToCrudItems rt [] = Inr []"
| "docsToCrudItems rt (d # ds) =
     (case docToCrudItem rt d of
        Inl e \<Rightarrow> Inl e
      | Inr x \<Rightarrow> (case docsToCrudItems rt ds of Inl e \<Rightarrow> Inl e | Inr xs \<Rightarrow> Inr (x # xs)))"

text \<open>\<open>buildLookup\<close>: \<open>Some oid\<close> is \<open>{ _id: oid }\<close>, \<open>None\<close> is \<open>{ _id: null }\<close>.\<close>

definition buildLookup :: "'oid MongoRuntime \<Rightarrow> string \<Rightarrow> 'oid option" where
  "buildLookup rt i = (case tryParseObjectId rt i of Some oid \<Rightarrow> Some oid | None \<Rightarrow> None)"

text \<open>The update document: \<open>$set\<close> with its \<open>updatedAt\<close>, and \<open>$unset\<close> when there is one.\<close>

record MongoUpdate =
  set_fields :: "(string \<times> jsval) list"
  set_updatedAt :: nat
  unset_fields :: "(string \<times> string) list option"

text \<open>The document \<open>update\<close> that the store's \<open>update\<close> builds from the payload:
  \<open>$set\<close> is \<open>{...set, updatedAt: now()}\<close>, and \<open>$unset\<close> is there when
  \<open>Object.keys(unset).length > 0\<close>.\<close>

definition updateDocument :: "ModelSchema \<Rightarrow> jsval \<Rightarrow> nat \<Rightarrow> MongoUpdate" where
  "updateDocument sch payload timestamp =
     (let (set, unset) = splitStructuredPatch sch payload
      in \<lparr>set_fields = set, set_updatedAt = timestamp,
          unset_fields = (if length unset > 0 then Some unset else None)\<rparr>)"

text \<open>What \<open>findOneAndUpdate\<close> resolves to: \<open>null\<close>, an object with a \<open>value\<close> property,
  or the document itself.\<close>

datatype 'oid FoauResult =
    ResultNull
  | ResultValue "'oid StoredDoc option"
  | ResultDoc "'oid StoredDoc"

datatype 'oid Unwrapped = UNull | UDoc "'oid StoredDoc" | UOther jsval

definition unwrapFindOneAndUpdateResult :: "'oid FoauResult \<Rightarrow> 'oid Unwrapped" where
  "unwrapFindOneAndUpdateResult result =
     (case result of
        ResultNull \<Rightarrow> UNull
      | ResultValue None \<Rightarrow> UNull
      | ResultValue (Some d) \<Rightarrow> UDoc d
      | ResultDoc d \<Rightarrow>
          (case rest d ''value'' of
             None \<Rightarrow> UDoc d
           | Some JUndefined \<Rightarrow> UNull
           | Some JNull \<Rightarrow> UNull
           | Some v \<Rightarrow> UOther v))"

text \<open>
  The operations of the store \<open>storeForModel(model)\<close>. \<open>col\<close> is the outcome of
  \<open>await collection()\<close> (\<open>Inl\<close> the message of the error it throws); \<open>findOne\<close>,
  \<open>insertOne\<close>, \<open>findOneAndUpdate\<close>, \<open>deleteOne\<close> and \<open>findToArray\<close> are the
  driver's calls, from their arguments to their outcomes. \<open>findToArray\<close> is
  \<open>col.find(filter).sort(sort).toArray()\<close>, and takes the filter and the sort
  specification. An operation returns \<open>Inl\<close> the message of the error it throws.
\<close>

record FindSpec =
  find_filter :: "(string \<times> jsval) list"
  find_sort :: "(string \<times> int) list"

definition mongo_getAll ::
  "'oid MongoRuntime \<Rightarrow> ModelDefinition \<Rightarrow> string + unit \<Rightarrow>
   (FindSpec \<Rightarrow> string + 'oid StoredDoc list) \<Rightarrow> string + CrudItem list" where
  "mongo_getAll rt model col findToArray =
     (case col of
        Inl e \<Rightarrow> Inl (asMongoOpError ''getAll'' (Some (model_name model)) e)
      | Inr _ \<Rightarrow>
          (case findToArray \<lparr>find_filter = [], find_sort = [(''_id'', 1)]\<rparr> of
             Inl e \<Rightarrow> Inl (asMongoOpError ''getAll'' (Some (model_name model)) e)
           | Inr docs \<Rightarrow>
               (case docsToCrudItems rt docs of
                  Inl e \<Rightarrow> Inl (asMongoOpError ''getAll'' (Some (model_name model)) e)
                | Inr xs \<Rightarrow> Inr xs)))"

definition mongo_getById ::
  "'oid MongoRuntime \<Rightarrow> ModelDefinition \<Rightarrow> string + unit \<Rightarrow>
   ('oid \<Rightarrow> string + 'oid StoredDoc option) \<Rightarrow> string \<Rightarrow> string + CrudItem option" where
  "mongo_getById rt model col findOne i =
     (let wrap = asMongoOpError (''getById('' @ i @ '')'') (Some (model_name model))
      in case col of
           Inl e \<Rightarrow> Inl (wrap e)
         | Inr _ \<Rightarrow>
             (case buildLookup rt i of
                None \<Rightarrow> Inr None
              | Some oid \<Rightarrow>
                  (case findOne oid of
                     Inl e \<Rightarrow> Inl (wrap e)
                   | Inr None \<Rightarrow> Inr None
                   | Inr (Some doc) \<Rightarrow>
                       (case docToCrudItem rt doc of
                          Inl e \<Rightarrow> Inl (wrap e)
                        | Inr item \<Rightarrow> Inr (Some item)))))"

text \<open>The document that \<open>create\<close> inserts:
  \<open>{ _id, createdAt: timestamp, updatedAt: timestamp, ...structured }\<close>, where \<open>_id\<close>
  is the fresh \<open>ObjectId\<close> unless \<open>structured\<close> has a property \<open>_id\<close>, which then
  replaces it.\<close>

definition insertDocument ::
  "(string \<times> jsval) list \<Rightarrow> nat \<Rightarrow> 'oid \<Rightarrow> 'oid StoredDoc" where
  "insertDocument structured timestamp fresh =
     \<lparr>doc_id = Some (case map_of structured ''_id'' of
                         None \<Rightarrow> ObjectId fresh
                       | Some v \<Rightarrow> Foreign v),
      createdAt = timestamp, updatedAt = timestamp, rest = map_of structured\<rparr>"

definition mongo_create ::
  "'oid MongoRuntime \<Rightarrow> ModelDefinition \<Rightarrow> string + unit \<Rightarrow>
   ('oid StoredDoc \<Rightarrow> string + 'oid DocId) \<Rightarrow> jsval \<Rightarrow> nat \<Rightarrow> 'oid \<Rightarrow> string + CrudItem" where
  "mongo_create rt model col insertOne payload timestamp fresh =
     (let wrap = asMongoOpError ''create'' (Some (model_name model))
      in case col of
           Inl e \<Rightarrow> Inl (wrap e)
         | Inr _ \<Rightarrow>
             (let structured = pickStructuredInsert (model_schema model) payload;
                  doc = insertDocument structured timestamp fresh
              in case insertOne doc of
                   Inl e \<Rightarrow> Inl (wrap e)
                 | Inr insertedId \<Rightarrow>
                     (case docToCrudItem rt (doc\<lparr>doc_id := Some insertedId\<rparr>) of
                        Inl e \<Rightarrow> Inl (wrap e)
                      | Inr item \<Rightarrow> Inr item)))"

definition mongo_update ::
  "'oid MongoRuntime \<Rightarrow> ModelDefinition \<Rightarrow> string + unit \<Rightarrow>
   ('oid \<Rightarrow> MongoUpdate \<Rightarrow> string + 'oid FoauResult) \<Rightarrow> string \<Rightarrow> jsval \<Rightarrow> nat \<Rightarrow>
   string + CrudItem option" where
  "mongo_update rt model col findOneAndUpdate i payload timestamp =
     (let wrap = asMongoOpError (''update('' @ i @ '')'') (Some (model_name model))
      in case col of
           Inl e \<Rightarrow> Inl (wrap e)
         | Inr _ \<Rightarrow>
             (case buildLookup rt i of
                None \<Rightarrow> Inr None
              | Some oid \<Rightarrow>
                  (let update = updateDocument (model_schema model) payload timestamp
                   in case findOneAndUpdate oid update of
                        Inl e \<Rightarrow> Inl (wrap e)
                      | Inr result \<Rightarrow>
                          (case unwrapFindOneAndUpdateResult result of
                             UNull \<Rightarrow> Inr None
                           | UDoc doc \<Rightarrow>
                               (case docToCrudItem rt doc of
                                  Inl e \<Rightarrow> Inl (wrap e)
                                | Inr item \<Rightarrow> Inr (Some item))
                           | UOther v \<Rightarrow>
                               if \<not> truthy v then Inr None
                               else if \<not> truthy (get_prop v ''_id'')
                                 then Inl (wrap ''MongoDB document is missing _id'')
                                 else Inl (wrap ''_id.toHexString is not a function'')))))"

definition mongo_delete ::
  "'oid MongoRuntime \<Rightarrow> ModelDefinition \<Rightarrow> string + unit \<Rightarrow> ('oid \<Rightarrow> string + nat) \<Rightarrow>
   string \<Rightarrow> string + bool" where
  "mongo_delete rt model col deleteOne i =
     (let wrap = asMongoOpError (''delete('' @ i @ '')'') (Some (model_name model))
      in case col of
           Inl e \<Rightarrow> Inl (wrap e)
         | Inr _ \<Rightarrow>
             (case buildLookup rt i of
                None \<Rightarrow> Inr False
              | Some oid \<Rightarrow>
                  (case deleteOne oid of
                     Inl e \<Rightarrow> Inl (wrap e)
                   | Inr deletedCount \<Rightarrow> Inr (deletedCount > 0))))"

section \<open>Relational adapter\<close>

text \<open>
  A timestamp column as the driver delivers it: a \<open>Date\<close>, a string, or something else.
  From the language the adapter takes \<open>Date.toISOString\<close>, \<open>new Date(s)\<close> (\<open>None\<close>
  for an invalid date, on which \<open>toISOString\<close> throws) and \<open>JSON.stringify\<close>.
\<close>

datatype PgTime = PgDate nat | PgString string | PgOther

record PgRuntime =
  pg_toISOString :: "nat \<Rightarrow> string"
  pg_newDate :: "string \<Rightarrow> nat option"
  pg_stringify :: "obj \<Rightarrow> string"

record CrudRow =
  row_id :: string
  created_at :: PgTime
  updated_at :: PgTime
  data :: obj

record QueryResult =
  rows :: "CrudRow list"
  rowCount :: "nat option"

definition asPostgresOpError :: "string \<Rightarrow> string option \<Rightarrow> string \<Rightarrow> string" where
  "asPostgresOpError op modelName msg =
     (let prefix = (case modelName of
                      None \<Rightarrow> ''Postgres''
                    | Some n \<Rightarrow> if n = [] then ''Postgres'' else ''Postgres ('' @ n @ '')'')
      in prefix @ '' '' @ op @ '' failed: '' @ msg)"

text \<open>\<open>nowIsoFromPg\<close>; \<open>clock\<close> is the current time, read in the last case.\<close>

definition nowIsoFromPg :: "PgRuntime \<Rightarrow> nat \<Rightarrow> PgTime \<Rightarrow> string + string" where
  "nowIsoFromPg rt clock v =
     (case v of
        PgDate d \<Rightarrow> Inr (pg_toISOString rt d)
      | PgString s \<Rightarrow>
          (case pg_newDate rt s of
             None \<Rightarrow> Inl ''Invalid time value''
           | Some d \<Rightarrow> Inr (pg_toISOString rt d))
      | PgOther \<Rightarrow> Inr (pg_toISOString rt clock))"

text \<open>\<open>safeIdentifier\<close>: the name must match \<open>/^[A-Za-z_][A-Za-z0-9_]*$/\<close>.\<close>

definition safeIdentifier :: "string \<Rightarrow> string + string" where
  "safeIdentifier nm =
     (if \<not> (nm \<noteq> [] \<and>
             hd nm \<in> set ''ABCDEFGHIJKLMNOPQRSTUVWXYZabcdefghijklmnopqrstuvwxyz_'' \<and>
             list_all (\<lambda>c. c \<in> set ''ABCDEFGHIJKLMNOPQRSTUVWXYZabcdefghijklmnopqrstuvwxyz0123456789_'')
               (tl nm))
      then Inl (''Invalid SQL identifier: '' @ nm @
                ''. Use letters, numbers, and underscores only (must not start with a number).'')
      else Inr ([CHR 0x22] @ nm @ [CHR 0x22]))"

text \<open>\<open>fullName\<close> of \<open>storeForModel\<close>; making the store throws when a name is refused.\<close>

definition pg_fullName :: "string \<Rightarrow> ModelDefinition \<Rightarrow> string + string" where
  "pg_fullName sch model =
     (case safeIdentifier sch of
        Inl e \<Rightarrow> Inl e
      | Inr schemaIdent \<Rightarrow>
          (case safeIdentifier (modelToTableName model) of
             Inl e \<Rightarrow> Inl e
           | Inr tableIdent \<Rightarrow> Inr (schemaIdent @ ''.'' @ tableIdent)))"

definition rowToCrudItem :: "PgRuntime \<Rightarrow> nat \<Rightarrow> CrudRow \<Rightarrow> string + CrudItem" where
  "rowToCrudItem rt clock row =
     (case nowIsoFromPg rt clock (created_at row) of
        Inl e \<Rightarrow> Inl e
      | Inr c \<Rightarrow>
          (case nowIsoFromPg rt clock (updated_at row) of
             Inl e \<Rightarrow> Inl e
           | Inr u \<Rightarrow>
               Inr ([''id'' \<mapsto> JStr (row_id row), ''createdAt'' \<mapsto> JStr c, ''updatedAt'' \<mapsto> JStr u]
                    ++ data row)))"

fun rowsToCrudItems :: "PgRuntime \<Rightarrow> nat \<Rightarrow> CrudRow list \<Rightarrow> string + CrudItem list" where
  "rowsToCrudItems rt clock [] = Inr []"
| "rowsToCrudItems rt clock (r # rs) =
     (case rowToCrudItem rt clock r of
        Inl e \<Rightarrow> Inl e
      | Inr x \<Rightarrow> (case rowsToCrudItems rt clock rs of Inl e \<Rightarrow> Inl e | Inr xs \<Rightarrow> Inr (x # xs)))"

text \<open>
  The statements of the relational store, character for character (the update statement
  is a template literal over several lines, each indented by twenty or twenty-four
  spaces).
\<close>

definition sql_selectAll :: "string \<Rightarrow> string" where
  "sql_selectAll fullName =
     ''SELECT id, created_at, updated_at, data FROM '' @ fullName @ '' ORDER BY id ASC''"

definition sql_selectById :: "string \<Rightarrow> string" where
  "sql_selectById fullName =
     ''SELECT id, created_at, updated_at, data FROM '' @ fullName @ '' WHERE id = $1''"

definition sql_insert :: "string \<Rightarrow> string" where
  "sql_insert fullName =
     ''INSERT INTO '' @ fullName @
     '' (id, data) VALUES ($1, $2::jsonb) RETURNING id, created_at, updated_at, data''"

definition sql_update :: "string \<Rightarrow> string" where
  "sql_update fullName =
     (let nl = [CHR 0x0A] @ replicate 20 (CHR '' '')
      in nl @ ''UPDATE '' @ fullName @
         nl @ ''SET data = COALESCE(data, '' @ [CHR 0x27] @ ''{}'' @ [CHR 0x27] @
              ''::jsonb) || $2::jsonb,'' @
         nl @ ''    updated_at = NOW()'' @
         nl @ ''WHERE id = $1'' @
         nl @ ''RETURNING id, created_at, updated_at, data'' @
         nl)"

definition sql_delete :: "string \<Rightarrow> string" where
  "sql_delete fullName = ''DELETE FROM '' @ fullName @ '' WHERE id = $1''"

text \<open>
  The operations of the relational store. \<open>ready\<close> is the outcome of \<open>await ready()\<close>,
  \<open>pool\<close> the outcome of \<open>await getPool()\<close>: the pool's \<open>query\<close>, which takes the
  statement and its parameters (none for \<open>getAll\<close>).
\<close>

type_synonym PgQuery = "string \<Rightarrow> string list \<Rightarrow> string + QueryResult"

definition pg_getAll ::
  "PgRuntime \<Rightarrow> ModelDefinition \<Rightarrow> string \<Rightarrow> string + unit \<Rightarrow> string + PgQuery \<Rightarrow> nat \<Rightarrow>
   string + CrudItem list" where
  "pg_getAll rt model fullName ready pool clock =
     (let wrap = asPostgresOpError ''getAll'' (Some (model_name model))
      in case ready of
           Inl e \<Rightarrow> Inl (wrap e)
         | Inr _ \<Rightarrow>
             (case pool of
                Inl e \<Rightarrow> Inl (wrap e)
              | Inr query \<Rightarrow>
                  (case query (sql_selectAll fullName) [] of
                     Inl e \<Rightarrow> Inl (wrap e)
                   | Inr result \<Rightarrow>
                       (case rowsToCrudItems rt clock (rows result) of
                          Inl e \<Rightarrow> Inl (wrap e)
                        | Inr xs \<Rightarrow> Inr xs))))"

definition pg_getById ::
  "PgRuntime \<Rightarrow> ModelDefinition \<Rightarrow> string \<Rightarrow> string + unit \<Rightarrow> string + PgQuery \<Rightarrow> nat \<Rightarrow>
   string \<Rightarrow> string + CrudItem option" where
  "pg_getById rt model fullName ready pool clock i =
     (let wrap = asPostgresOpError (''getById('' @ i @ '')'') (Some (model_name model))
      in case ready of
           Inl e \<Rightarrow> Inl (wrap e)
         | Inr _ \<Rightarrow>
             (case pool of
                Inl e \<Rightarrow> Inl (wrap e)
              | Inr query \<Rightarrow>
                  (case query (sql_selectById fullName) [i] of
                     Inl e \<Rightarrow> Inl (wrap e)
                   | Inr result \<Rightarrow>
                       (case rows result of
                          [] \<Rightarrow> Inr None
                        | row # _ \<Rightarrow>
                            (case rowToCrudItem rt clock row of
                               Inl e \<Rightarrow> Inl (wrap e)
                             | Inr item \<Rightarrow> Inr (Some item))))))"

definition pg_create ::
  "PgRuntime \<Rightarrow> ModelDefinition \<Rightarrow> string \<Rightarrow> string + unit \<Rightarrow> string + PgQuery \<Rightarrow> nat \<Rightarrow>
   jsval \<Rightarrow> string \<Rightarrow> string + CrudItem" where
  "pg_create rt model fullName ready pool clock payload uuid =
     (let wrap = asPostgresOpError ''create'' (Some (model_name model))
      in case ready of
           Inl e \<Rightarrow> Inl (wrap e)
         | Inr _ \<Rightarrow>
             (let data = sanitizeClientPayload payload
              in case pool of
                   Inl e \<Rightarrow> Inl (wrap e)
                 | Inr query \<Rightarrow>
                     (case query (sql_insert fullName) [uuid, pg_stringify rt data] of
                        Inl e \<Rightarrow> Inl (wrap e)
                      | Inr result \<Rightarrow>
                          (case rows result of
                             [] \<Rightarrow> Inl (wrap ''Postgres insert returned no row.'')
                           | row # _ \<Rightarrow>
                               (case rowToCrudItem rt clock row of
                                  Inl e \<Rightarrow> Inl (wrap e)
                                | Inr item \<Rightarrow> Inr item)))))"

definition pg_update ::
  "PgRuntime \<Rightarrow> ModelDefinition \<Rightarrow> string \<Rightarrow> string + unit \<Rightarrow> string + PgQuery \<Rightarrow> nat \<Rightarrow>
   string \<Rightarrow> jsval \<Rightarrow> string + CrudItem option" where
  "pg_update rt model fullName ready pool clock i payload =
     (let wrap = asPostgresOpError (''update('' @ i @ '')'') (Some (model_name model))
      in case ready of
           Inl e \<Rightarrow> Inl (wrap e)
         | Inr _ \<Rightarrow>
             (let patch = sanitizeClientPayload payload
              in case pool of
                   Inl e \<Rightarrow> Inl (wrap e)
                 | Inr query \<Rightarrow>
                     (case query (sql_update fullName) [i, pg_stringify rt patch] of
                        Inl e \<Rightarrow> Inl (wrap e)
                      | Inr result \<Rightarrow>
                          (case rows result of
                             [] \<Rightarrow> Inr None
                           | row # _ \<Rightarrow>
                               (case rowToCrudItem rt clock row of
                                  Inl e \<Rightarrow> Inl (wrap e)
                                | Inr item \<Rightarrow> Inr (Some item))))))"

definition pg_delete ::
  "ModelDefinition \<Rightarrow> string \<Rightarrow> string + unit \<Rightarrow> string + PgQuery \<Rightarrow> string \<Rightarrow> string + bool" where
  "pg_delete model fullName ready pool i =
     (let wrap = asPostgresOpError (''delete('' @ i @ '')'') (Some (model_name model))
      in case ready of
           Inl e \<Rightarrow> Inl (wrap e)
         | Inr _ \<Rightarrow>
             (case pool of
                Inl e \<Rightarrow> Inl (wrap e)
              | Inr query \<Rightarrow>
                  (case query (sql_delete fullName) [i] of
                     Inl e \<Rightarrow> Inl (wrap e)
                   | Inr result \<Rightarrow>
                       Inr ((case rowCount result of None \<Rightarrow> 0 | Some n \<Rightarrow> n) > 0))))"

section \<open>Adapter factory\<close>

text \<open>
  The configuration as \<open>DbConfig\<close> declares it, each part optional. The adapter kind is any
  value (the configuration may come from JavaScript), \<open>JUndefined\<close> when it is not set. The
  environment maps a variable's name to its value.
\<close>

record JsonSection =
  dir :: "string option"

record PostgresSection =
  pg_connectionString :: "string option"
  pg_schema :: "string option"

record MongoSection =
  mongo_connectionString :: "string option"
  mongo_dbName :: "string option"
  mongo_collectionPrefix :: "string option"

record DbConfig =
  db_adapter :: jsval
  db_json :: "JsonSection option"
  db_postgres :: "PostgresSection option"
  db_mongodb :: "MongoSection option"

record PostgresDbConfig =
  pgcfg_connectionString :: string
  pgcfg_schema :: "string option"

record MongoDbConfig =
  mcfg_connectionString :: string
  mcfg_dbName :: string
  mcfg_collectionPrefix :: "string option"

text \<open>The adapter the factory returns, by the constructor it calls and the arguments.\<close>

datatype DbAdapter =
    MemoryDbAdapter
  | JsonFileDbAdapter string "string option"
  | PostgresDbAdapter PostgresDbConfig
  | MongoDbAdapter MongoDbConfig

text \<open>\<open>a ?? b\<close> on optional values.\<close>

definition orElse :: "'a option \<Rightarrow> 'a option \<Rightarrow> 'a option" where
  "orElse a b = (case a of None \<Rightarrow> b | Some x \<Rightarrow> Some x)"

text \<open>\<open>!s\<close> for an optional string: it is missing or empty.\<close>

definition missing :: "string option \<Rightarrow> bool" where
  "missing s = (case s of None \<Rightarrow> True | Some v \<Rightarrow> v = [])"

text \<open>The messages of the three configuration errors.\<close>

definition postgresConnectionStringError :: string where
  "postgresConnectionStringError =
     ''Postgres db adapter requires a connection string. Set db.postgres.connectionString in backend.config.*, or set DATABASE_URL.''"

definition mongoConnectionStringError :: string where
  "mongoConnectionStringError =
     ''MongoDB db adapter requires a connection string. Set db.mongodb.connectionString in backend.config.*, or set MONGODB_URI.''"

definition mongoDbNameError :: string where
  "mongoDbNameError =
     ''MongoDB db adapter requires a database name. Set db.mongodb.dbName in backend.config.*, or set MONGODB_DB.''"

definition createDbAdapter ::
  "string \<Rightarrow> DbConfig option \<Rightarrow> (string \<Rightarrow> string option) \<Rightarrow> string + DbAdapter" where
  "createDbAdapter projectRoot config env =
     (let kind = (case config of
                    None \<Rightarrow> JStr ''memory''
                  | Some c \<Rightarrow>
                      (case db_adapter c of
                         JUndefined \<Rightarrow> JStr ''memory''
                       | JNull \<Rightarrow> JStr ''memory''
                       | a \<Rightarrow> a))
      in case kind of
           JStr k \<Rightarrow>
             if k = ''memory'' then Inr MemoryDbAdapter
             else if k = ''json'' then
               Inr (JsonFileDbAdapter projectRoot
                      (Option.bind (Option.bind config db_json) dir))
             else if k = ''postgres'' then
               (let connectionString =
                      orElse (Option.bind (Option.bind config db_postgres) pg_connectionString)
                        (env ''DATABASE_URL'')
                in if missing connectionString then
                     Inl postgresConnectionStringError
                   else
                     Inr (PostgresDbAdapter
                            \<lparr>pgcfg_connectionString = the connectionString,
                             pgcfg_schema = Option.bind (Option.bind config db_postgres) pg_schema\<rparr>))
             else if k = ''mongodb'' then
               (let connectionString =
                      orElse (Option.bind (Option.bind config db_mongodb) mongo_connectionString)
                        (env ''MONGODB_URI'');
                    dbName =
                      orElse (Option.bind (Option.bind config db_mongodb) mongo_dbName)
                        (env ''MONGODB_DB'')
                in if missing connectionString then
                     Inl mongoConnectionStringError
                   else if missing dbName then
                     Inl mongoDbNameError
                   else
                     Inr (MongoDbAdapter
                            \<lparr>mcfg_connectionString = the connectionString,
                             mcfg_dbName = the dbName,
                             mcfg_collectionPrefix =
                               Option.bind (Option.bind config db_mongodb) mongo_collectionPrefix\<rparr>))
             else Inr MemoryDbAdapter
         | _ \<Rightarrow> Inr MemoryDbAdapter)"

text \<open>\<open>s.includes(sub)\<close>.\<close>

fun startsWith :: "string \<Rightarrow> string \<Rightarrow> bool" where
  "startsWith s [] = True"
| "startsWith [] (c # sub) = False"
| "startsWith (d # s) (c # sub) = (d = c \<and> startsWith s sub)"

fun str_includes :: "string \<Rightarrow> string \<Rightarrow> bool" where
  "str_includes [] sub = (sub = [])"
| "str_includes (d # s) sub = (startsWith (d # s) sub \<or> str_includes s sub)"

section \<open>Bootstrap memoization\<close>

text \<open>
  \<open>ensureTable\<close> and \<open>ensureCollection\<close> keep a \<open>Map\<close> from a key to the promise of
  the bootstrap. The event loop runs each piece of code to completion, so an adapter's
  history is a sequence of two kinds of steps: a call of \<open>ensureTable\<close> (its body up to
  the \<open>return\<close> has no \<open>await\<close>: it reads the map, and when there is no entry starts the
  bootstrap, guards its promise and stores it), and the settling of a started bootstrap
  (on failure the guard's handler deletes the entry of the key and rethrows). A promise is
  a handle: its index in the list of all bootstraps started, which records the key and the
  promise's state. A caller gets the promise of the \<open>async\<close> function, which settles as
  the stored promise does; it is identified with the stored promise. \<open>dispose\<close> ends the
  adapter's use and is not a step.
\<close>

datatype PromiseState = Pending | Fulfilled | Rejected

record Memo =
  cache :: "(string \<times> nat) list"
  promises :: "(string \<times> PromiseState) list"

definition emptyMemo :: Memo where
  "emptyMemo = \<lparr>cache = [], promises = []\<rparr>"

definition ensure :: "string \<Rightarrow> Memo \<Rightarrow> nat \<times> Memo" where
  "ensure key m =
     (case map_of (cache m) key of
        Some existing \<Rightarrow> (existing, m)
      | None \<Rightarrow>
          (let guarded = length (promises m)
           in (guarded,
               m\<lparr>promises := promises m @ [(key, Pending)],
                 cache := AList.update key guarded (cache m)\<rparr>)))"

definition settle :: "nat \<Rightarrow> bool \<Rightarrow> Memo \<Rightarrow> Memo" where
  "settle p ok m =
     (if p < length (promises m) \<and> snd (promises m ! p) = Pending then
        (let key = fst (promises m ! p)
         in if ok then m\<lparr>promises := (promises m)[p := (key, Fulfilled)]\<rparr>
            else m\<lparr>promises := (promises m)[p := (key, Rejected)],
                   cache := AList.delete key (cache m)\<rparr>)
      else m)"

text \<open>The keys: \<open>`${schema}.${table}`\<close> in the relational adapter, the prefixed
  collection name in the document adapter.\<close>

definition ensureTable :: "string \<Rightarrow> ModelDefinition \<Rightarrow> Memo \<Rightarrow> nat \<times> Memo" where
  "ensureTable sch model m = ensure (sch @ ''.'' @ modelToTableName model) m"

definition ensureCollection :: "string option \<Rightarrow> ModelDefinition \<Rightarrow> Memo \<Rightarrow> nat \<times> Memo" where
  "ensureCollection collectionPrefix model m =
     ensure ((case collectionPrefix of None \<Rightarrow> [] | Some s \<Rightarrow> s) @ modelToCollectionName model) m"

datatype Event = Ensure ModelDefinition | Settle nat bool

definition pg_step :: "string \<Rightarrow> Memo \<Rightarrow> Event \<Rightarrow> Memo" where
  "pg_step sch m ev =
     (case ev of Ensure model \<Rightarrow> snd (ensureTable sch model m) | Settle p ok \<Rightarrow> settle p ok m)"

definition mongo_step :: "string option \<Rightarrow> Memo \<Rightarrow> Event \<Rightarrow> Memo" where
  "mongo_step collectionPrefix m ev =
     (case ev of
        Ensure model \<Rightarrow> snd (ensureCollection collectionPrefix model m)
      | Settle p ok \<Rightarrow> settle p ok m)"

text \<open>A started bootstrap is live while its promise is pending or fulfilled.\<close>

definition live :: "Memo \<Rightarrow> nat \<Rightarrow> bool" where
  "live m p = (p < length (promises m) \<and> snd (promises m ! p) \<noteq> Rejected)"

definition key_of :: "Memo \<Rightarrow> nat \<Rightarrow> string" where
  "key_of m p = fst (promises m ! p)"

text \<open>The invariant of the map: an entry holds a live bootstrap started for its key, and
  every live bootstrap is the entry of its key.\<close>

definition memo_ok :: "Memo \<Rightarrow> bool" where
  "memo_ok m =
     ((\<forall>k p. map_of (cache m) k = Some p \<longrightarrow> live m p \<and> key_of m p = k) \<and>
      (\<forall>p. live m p \<longrightarrow> map_of (cache m) (key_of m p) = Some p))"

definition pg_run :: "string \<Rightarrow> Event list \<Rightarrow> Memo" where
  "pg_run sch evs = foldl (pg_step sch) emptyMemo evs"

definition mongo_run :: "string option \<Rightarrow> Event list \<Rightarrow> Memo" where
  "mongo_run collectionPrefix evs = foldl (mongo_step collectionPrefix) emptyMemo evs"

section \<open>Example data\<close>

text \<open>Concrete values on which the theorems below are instantiated. In \<open>ex_rt\<close> an
  \<open>ObjectId\<close> is its own hexadecimal string; the parser of \<open>ex_env\<close> reads one file text,
  \<open>items: u0\<close>, as the document whose \<open>items\<close> are the number 0 and \<open>ex_item\<close>, and
  refuses every other text. \<open>ex_query\<close> is an engine holding the row \<open>ex_row\<close>: it
  answers the statements of the relational store for the table \<open>ex_fullName\<close> and refuses
  every other statement. \<open>ex_insertOne\<close>, \<open>ex_findOne\<close>, \<open>ex_findOneAndUpdate\<close> and
  \<open>ex_findToArray\<close> are a driver over a collection holding the document \<open>ex_doc\<close>.
  The schema of \<open>ex_note\<close> declares the fields \<open>_id\<close> and \<open>toString\<close>.\<close>

definition ex_time :: string where
  "ex_time = ''2026-01-01T00:00:00.000Z''"

definition ex_item :: CrudItem where
  "ex_item = [''id'' \<mapsto> JStr ''u0'', ''createdAt'' \<mapsto> JStr ex_time, ''updatedAt'' \<mapsto> JStr ex_time,
              ''a'' \<mapsto> JNum 1, ''b'' \<mapsto> JNum 2]"

definition ex_items :: items where
  "ex_items = [(''u0'', ex_item)]"

definition ex_env :: JsonEnv where
  "ex_env = \<lparr>JSON_parse = (\<lambda>s. if s = ''items: u0''
                                then Some (JObj [''items'' \<mapsto> JArr [JNum 0, JObj ex_item]])
                                else None),
             JSON_stringify = (\<lambda>v. ''items: u0''), pid = 4242, filePath = ''/db/todo.json''\<rparr>"

definition ex_rt :: "string MongoRuntime" where
  "ex_rt = \<lparr>newObjectId = (\<lambda>s. if length s = 24 then Some s else None),
            toHexString = (\<lambda>s. s), toISOString = dec\<rparr>"

definition ex_model :: ModelDefinition where
  "ex_model = \<lparr>model_name = ''Todo'',
               model_schema = [(''title'', \<lparr>ftype = TString, isOptional = False\<rparr>),
                               (''done'', \<lparr>ftype = TBoolean, isOptional = True\<rparr>)]\<rparr>"

definition ex_note :: ModelDefinition where
  "ex_note = \<lparr>model_name = ''Note'',
              model_schema = [(''_id'', \<lparr>ftype = TString, isOptional = True\<rparr>),
                              (''toString'', \<lparr>ftype = TString, isOptional = True\<rparr>)]\<rparr>"

definition ex_payload :: jsval where
  "ex_payload = JObj [''title'' \<mapsto> JStr ''Buy milk'', ''done'' \<mapsto> JBool False,
                      ''id'' \<mapsto> JStr ''client-id'']"

definition ex_oid :: string where
  "ex_oid = ''65a1b2c3d4e5f60718293a4b''"

definition ex_doc :: "string StoredDoc" where
  "ex_doc = \<lparr>doc_id = Some (ObjectId ex_oid), createdAt = 7, updatedAt = 7,
             rest = map_of (pickStructuredInsert (model_schema ex_model) ex_payload)\<rparr>"

definition ex_row :: CrudRow where
  "ex_row = \<lparr>row_id = ''u1'', created_at = PgDate 7, updated_at = PgDate 7,
             data = [''title'' \<mapsto> JStr ''Buy milk'']\<rparr>"

definition ex_prt :: PgRuntime where
  "ex_prt = \<lparr>pg_toISOString = dec, pg_newDate = (\<lambda>s. None),
             pg_stringify = (\<lambda>d. case d ''title'' of
                                    Some (JStr s) \<Rightarrow> ''{title: '' @ s @ ''}''
                                  | _ \<Rightarrow> ''{}'')\<rparr>"

definition ex_fullName :: string where
  "ex_fullName = ''public.todos''"

definition ex_query :: PgQuery where
  "ex_query text params =
     (if text = sql_insert ex_fullName \<and> params = [''u1'', ''{title: Buy milk}'']
        then Inr \<lparr>rows = [ex_row], rowCount = Some 1\<rparr>
      else if text = sql_insert ex_fullName \<and> params = [''u2'', ''{}'']
        then Inr \<lparr>rows = [\<lparr>row_id = ''u2'', created_at = PgDate 7, updated_at = PgDate 7,
                            data = Map.empty\<rparr>], rowCount = Some 1\<rparr>
      else if text = sql_selectById ex_fullName \<and> params = [''u1'']
        then Inr \<lparr>rows = [ex_row], rowCount = Some 1\<rparr>
      else if text = sql_selectAll ex_fullName \<and> params = []
        then Inr \<lparr>rows = [ex_row], rowCount = Some 1\<rparr>
      else if text = sql_update ex_fullName \<and> params = [''u1'', ''{title: Buy bread}'']
        then Inr \<lparr>rows = [ex_row\<lparr>updated_at := PgDate 8,
                                   data := [''title'' \<mapsto> JStr ''Buy bread'']\<rparr>],
                  rowCount = Some 1\<rparr>
      else if text = sql_update ex_fullName \<and> params = [''u1'', ''{}'']
        then Inr \<lparr>rows = [ex_row\<lparr>updated_at := PgDate 8\<rparr>], rowCount = Some 1\<rparr>
      else if text = sql_update ex_fullName
        then Inr \<lparr>rows = [], rowCount = Some 0\<rparr>
      else Inl ''syntax error'')"

definition ex_insertOne :: "string StoredDoc \<Rightarrow> string + string DocId" where
  "ex_insertOne doc = (case doc_id doc of None \<Rightarrow> Inl ''no _id'' | Some i \<Rightarrow> Inr i)"



definition ex_findToArray :: "FindSpec \<Rightarrow> string + string StoredDoc list" where
  "ex_findToArray spec =
     (if spec = \<lparr>find_filter = [], find_sort = [(''_id'', 1)]\<rparr> then Inr [ex_doc]
      else Inl ''unexpected query'')"

definition ex_events :: "Event list" where
  "ex_events = [Ensure ex_model, Ensure ex_model, Settle 0 False, Ensure ex_model, Settle 1 True,
                Ensure ex_model]"

definition ex_memo :: Memo where
  "ex_memo = \<lparr>cache = [(''public.todos'', 1)],
               promises = [(''public.todos'', Rejected), (''public.todos'', Fulfilled)]\<rparr>"

section \<open>Facts about sanitization and the map\<close>


lemma sanitize_reserved:
  "k \<in> {''id'', ''createdAt'', ''updatedAt''} \<Longrightarrow> sanitizeClientPayload p k = None"
  by (simp add: sanitizeClientPayload_def)

lemma sanitize_other:
  "k \<notin> {''id'', ''createdAt'', ''updatedAt''} \<Longrightarrow>
   sanitizeClientPayload p k = own_props p k"
  by (cases p) (simp_all add: sanitizeClientPayload_def)


lemma Map_get_delete:
  "Map_get (fst (Map_delete items k)) k' = (if k' = k then None else Map_get items k')"
  by (simp add: Map_get_def Map_delete_def delete_conv')

lemma create_item_id:
  "item_id ([''id'' \<mapsto> JStr uuid, ''createdAt'' \<mapsto> JStr now, ''updatedAt'' \<mapsto> JStr now]
             ++ sanitizeClientPayload payload) = uuid"
  by (simp add: item_id_def map_add_def sanitize_reserved)


section \<open>Missing ids\<close>

lemma Map_delete_absent:
  assumes "Map_get items i = None"
  shows "Map_delete items i = (items, False)"
proof -
  from assms have none: "map_of items i = None"
    by (simp add: Map_get_def)
  then have "i \<notin> fst ` set items"
    by (simp add: map_of_eq_None_iff)
  with none show ?thesis
    by (simp add: Map_delete_def)
qed

lemma Map_delete_twice: "snd (Map_delete (fst (Map_delete items i)) i) = False"
  by (simp add: Map_delete_def delete_conv')

lemma atomicWriteJson_eq:
  "atomicWriteJson S p ms files fp d =
     Inr ((files(tempPath fp p ms := None))(fp \<mapsto> S d))"
  by (simp add: atomicWriteJson_def writeFileSync_def renameSync_def)

lemma flush_eq:
  "flush env ms files items =
     Inr ((files(tempPath (filePath env) (pid env) ms := None))
            (filePath env \<mapsto> JSON_stringify env (JObj [''items'' \<mapsto> JArr (map JObj (Map_values items))])))"
  by (simp add: flush_def atomicWriteJson_eq)

lemma json_delete_absent:
  "Map_get (snd st) i = None \<Longrightarrow> json_delete env st i ms = Inr (st, False)"
  by (simp add: json_delete_def Map_delete_absent)

lemma json_delete_again:
  "\<exists>st' b. json_delete env st i ms = Inr (st', b) \<and> json_delete env st' i ms' = Inr (st', False)"
proof (cases "Map_get (snd st) i")
  case None
  then have "json_delete env st i ms = Inr (st, False)" "json_delete env st i ms' = Inr (st, False)"
    by (simp_all add: json_delete_absent)
  then show ?thesis by blast
next
  case (Some a)
  obtain items' d where md: "Map_delete (snd st) i = (items', d)"
    by (cases "Map_delete (snd st) i")
  with Some have d: "d"
    by (simp add: Map_delete_def Map_get_def)
  from md d have del: "json_delete env st i ms =
      Inr (((fst st)(tempPath (filePath env) (pid env) ms := None,
              filePath env \<mapsto> JSON_stringify env
                (JObj [''items'' \<mapsto> JArr (map JObj (Map_values items'))])), items'), True)"
    by (simp add: json_delete_def flush_eq)
  from md have "Map_get items' i = None"
    using Map_get_delete [of "snd st" i i] by simp
  then have "json_delete env (f, items') i ms' = Inr ((f, items'), False)" for f
    by (simp add: json_delete_absent)
  with del show ?thesis by blast
qed

text \<open>
  Claim C3. Not-found is never an error. For an id with no stored record, \<open>getById\<close> and
  \<open>update\<close> return absent and \<open>delete\<close> returns \<open>false\<close>, in the memory store and the
  file store; a second \<open>delete\<close> of an id returns \<open>false\<close>. In the document adapter (its
  collection being ready) an id that \<open>new ObjectId\<close> refuses gives absent or \<open>false\<close>
  whatever the driver would answer, and so does an id the driver finds no document for. In the
  relational adapter a query that returns no row gives absent or \<open>false\<close>.
\<close>

theorem C3_not_found_is_not_an_error:
  "(Map_get items i = None \<longrightarrow>
      mem_getById items i = None \<and>
      mem_update items i p now = (items, None) \<and>
      mem_delete items i = (items, False)) \<and>
   snd (mem_delete (fst (mem_delete items j)) j) = False \<and>
   (Map_get (snd st) i = None \<longrightarrow>
      json_getById st i = None \<and>
      json_update env st i p now ms = Inr (st, None) \<and>
      json_delete env st i ms = Inr (st, False)) \<and>
   (\<exists>st' b. json_delete env st j ms = Inr (st', b) \<and>
             json_delete env st' j ms' = Inr (st', False)) \<and>
   (newObjectId rt i = None \<longrightarrow>
      mongo_getById rt model (Inr ()) findOne i = Inr None \<and>
      mongo_update rt model (Inr ()) findOneAndUpdate i p ts = Inr None \<and>
      mongo_delete rt model (Inr ()) deleteOne i = Inr False) \<and>
   mongo_getById rt model (Inr ()) (\<lambda>_. Inr None) j = Inr None \<and>
   mongo_update rt model (Inr ()) (\<lambda>_ _. Inr ResultNull) j p ts = Inr None \<and>
   mongo_update rt model (Inr ()) (\<lambda>_ _. Inr (ResultValue None)) j p ts = Inr None \<and>
   mongo_delete rt model (Inr ()) (\<lambda>_. Inr 0) j = Inr False \<and>
   pg_getById prt model fullName (Inr ()) (Inr (\<lambda>_ _. Inr \<lparr>rows = [], rowCount = rc\<rparr>)) clock j
     = Inr None \<and>
   pg_update prt model fullName (Inr ()) (Inr (\<lambda>_ _. Inr \<lparr>rows = [], rowCount = rc\<rparr>)) clock j p
     = Inr None \<and>
   pg_delete model fullName (Inr ()) (Inr (\<lambda>_ _. Inr \<lparr>rows = [], rowCount = Some 0\<rparr>)) j
     = Inr False \<and>
   pg_delete model fullName (Inr ()) (Inr (\<lambda>_ _. Inr \<lparr>rows = [], rowCount = None\<rparr>)) j
     = Inr False"
proof -
  have mem: "Map_get items i = None \<longrightarrow>
      mem_getById items i = None \<and>
      mem_update items i p now = (items, None) \<and>
      mem_delete items i = (items, False)"
    by (simp add: mem_getById_def mem_update_def mem_delete_def Map_delete_absent)
  have mem2: "snd (mem_delete (fst (mem_delete items j)) j) = False"
    by (simp add: mem_delete_def Map_delete_twice)
  have js: "Map_get (snd st) i = None \<longrightarrow>
      json_getById st i = None \<and>
      json_update env st i p now ms = Inr (st, None) \<and>
      json_delete env st i ms = Inr (st, False)"
    by (simp add: json_getById_def json_update_def json_delete_absent)
  have mongo_bad: "newObjectId rt i = None \<longrightarrow>
      mongo_getById rt model (Inr ()) findOne i = Inr None \<and>
      mongo_update rt model (Inr ()) findOneAndUpdate i p ts = Inr None \<and>
      mongo_delete rt model (Inr ()) deleteOne i = Inr False"
    by (simp add: mongo_getById_def mongo_update_def mongo_delete_def buildLookup_def
        tryParseObjectId_def)
  have mongo_none:
    "mongo_getById rt model (Inr ()) (\<lambda>_. Inr None) j = Inr None"
    "mongo_update rt model (Inr ()) (\<lambda>_ _. Inr ResultNull) j p ts = Inr None"
    "mongo_update rt model (Inr ()) (\<lambda>_ _. Inr (ResultValue None)) j p ts = Inr None"
    "mongo_delete rt model (Inr ()) (\<lambda>_. Inr 0) j = Inr False"
    by (simp_all add: mongo_getById_def mongo_update_def mongo_delete_def
        unwrapFindOneAndUpdateResult_def Let_def split: option.splits prod.splits)
  have pg:
    "pg_getById prt model fullName (Inr ()) (Inr (\<lambda>_ _. Inr \<lparr>rows = [], rowCount = rc\<rparr>)) clock j
       = Inr None"
    "pg_update prt model fullName (Inr ()) (Inr (\<lambda>_ _. Inr \<lparr>rows = [], rowCount = rc\<rparr>)) clock j p
       = Inr None"
    "pg_delete model fullName (Inr ()) (Inr (\<lambda>_ _. Inr \<lparr>rows = [], rowCount = Some 0\<rparr>)) j
       = Inr False"
    "pg_delete model fullName (Inr ()) (Inr (\<lambda>_ _. Inr \<lparr>rows = [], rowCount = None\<rparr>)) j
       = Inr False"
    by (simp_all add: pg_getById_def pg_update_def pg_delete_def Let_def)
  from mem mem2 js json_delete_again [of env st j ms ms'] mongo_bad mongo_none pg
  show ?thesis by blast
qed

theorem C3_witness:
  "Map_get ex_items ''does-not-exist'' = None \<and>
   mem_getById ex_items ''does-not-exist'' = None \<and>
   mem_update ex_items ''does-not-exist'' (JObj [''b'' \<mapsto> JNum 3]) ex_time = (ex_items, None) \<and>
   mem_delete ex_items ''does-not-exist'' = (ex_items, False) \<and>
   Map_get (snd (Map.empty, ex_items)) ''does-not-exist'' = None \<and>
   json_getById (Map.empty, ex_items) ''does-not-exist'' = None \<and>
   json_update ex_env (Map.empty, ex_items) ''does-not-exist'' (JObj [''b'' \<mapsto> JNum 3]) ex_time 7 =
     Inr ((Map.empty, ex_items), None) \<and>
   json_delete ex_env (Map.empty, ex_items) ''does-not-exist'' 7 = Inr ((Map.empty, ex_items), False) \<and>
   newObjectId ex_rt ''does-not-exist'' = None \<and>
   mongo_getById ex_rt ex_model (Inr ()) (\<lambda>_. Inl ''query error'') ''does-not-exist'' = Inr None \<and>
   mongo_update ex_rt ex_model (Inr ()) (\<lambda>_ _. Inl ''query error'') ''does-not-exist''
     (JObj [''b'' \<mapsto> JNum 3]) 7 = Inr None \<and>
   mongo_delete ex_rt ex_model (Inr ()) (\<lambda>_. Inl ''query error'') ''does-not-exist'' = Inr False"
proof -
  have g: "Map_get ex_items ''does-not-exist'' = None"
    by (simp add: Map_get_def ex_items_def)
  have o: "newObjectId ex_rt ''does-not-exist'' = None"
    by (simp add: ex_rt_def)
  from C3_not_found_is_not_an_error [where items = ex_items and i = "''does-not-exist''"
      and st = "(Map.empty, ex_items)" and rt = ex_rt] g o
  show ?thesis by simp
qed


section \<open>Field pickers\<close>

lemma proto_get_reserved:
  "proto_get ''id'' = JUndefined" "proto_get ''_id'' = JUndefined"
  by (simp_all add: proto_get_def objectPrototypeFunctions_def)

lemma proto_get_plain: "k \<notin> set objectPrototypeKeys \<Longrightarrow> proto_get k = JUndefined"
  by (simp add: proto_get_def objectPrototypeKeys_def)

lemma obj_get_plain:
  "k \<notin> set objectPrototypeKeys \<Longrightarrow>
   obj_get raw k = (case raw k of None \<Rightarrow> JUndefined | Some v \<Rightarrow> v)"
  by (simp add: obj_get_def proto_get_plain split: option.splits)

lemma protoFree_key:
  "protoFree sch \<Longrightarrow> k \<in> set (schema_keys sch) \<Longrightarrow> k \<notin> set objectPrototypeKeys"
  by (simp add: protoFree_def list_all_iff)

lemma protoFree_not_proto:
  "protoFree sch \<Longrightarrow> k \<in> set (schema_keys sch) \<Longrightarrow> k \<noteq> ''__proto__''"
  by (auto simp: protoFree_def list_all_iff objectPrototypeKeys_def)

lemma fold_pick:
  "map_of (fold (\<lambda>key picked.
                 case obj_get raw key of
                   JUndefined \<Rightarrow> picked
                 | JNull \<Rightarrow> picked
                 | value \<Rightarrow> obj_assign key value picked) ks acc) k =
     (if k \<in> set ks \<and> k \<noteq> ''__proto__'' then
        (case obj_get raw k of JUndefined \<Rightarrow> map_of acc k | JNull \<Rightarrow> map_of acc k | v \<Rightarrow> Some v)
      else map_of acc k)"
proof (induction ks arbitrary: acc)
  case Nil
  then show ?case by simp
next
  case (Cons a ks)
  show ?case
    by (cases "obj_get raw a"; cases "obj_get raw k")
       (auto simp: Cons.IH update_conv' obj_assign_def)
qed

lemma map_of_pick:
  "map_of (pickStructuredInsert sch p) k =
     (if k \<in> set (schema_keys sch) \<and> k \<noteq> ''__proto__'' then
        (case obj_get (sanitizeClientPayload p) k of
           JUndefined \<Rightarrow> None | JNull \<Rightarrow> None | v \<Rightarrow> Some v)
      else None)"
  by (simp add: pickStructuredInsert_def fold_pick split: jsval.splits)





lemma pick_no_id: "map_of (pickStructuredInsert sch p) ''id'' = None"
  by (simp add: map_of_pick obj_get_def sanitize_reserved proto_get_reserved)

lemma pick_no_underscore_id:
  "''_id'' \<notin> set (schema_keys sch) \<Longrightarrow> map_of (pickStructuredInsert sch p) ''_id'' = None"
  by (simp add: map_of_pick)

lemma obj_get_sanitize:
  "k \<notin> set objectPrototypeKeys \<Longrightarrow>
   obj_get (sanitizeClientPayload p) k =
     (if k \<in> {''id'', ''createdAt'', ''updatedAt''} then JUndefined
      else (case own_props p k of None \<Rightarrow> JUndefined | Some v \<Rightarrow> v))"
  by (simp add: obj_get_plain sanitize_reserved sanitize_other)

lemma pick_fields:
  assumes "protoFree sch"
  shows "map_of (pickStructuredInsert sch p) k =
     (if k \<in> set (schema_keys sch) \<and> k \<notin> {''id'', ''createdAt'', ''updatedAt''} then
        (case own_props p k of
           None \<Rightarrow> None | Some JUndefined \<Rightarrow> None | Some JNull \<Rightarrow> None | Some v \<Rightarrow> Some v)
      else None)"
proof (cases "k \<in> set (schema_keys sch)")
  case True
  with assms have "k \<notin> set objectPrototypeKeys" "k \<noteq> ''__proto__''"
    by (simp_all add: protoFree_key protoFree_not_proto)
  with True show ?thesis
    by (simp add: map_of_pick obj_get_sanitize split: option.splits jsval.splits)
next
  case False
  then show ?thesis by (simp add: map_of_pick)
qed











section \<open>Adapter factory: the kinds and the settings\<close>

text \<open>
  Claim C9. For a configuration whose adapter kind is none of \<open>"memory"\<close>, \<open>"json"\<close>,
  \<open>"postgres"\<close>, \<open>"mongodb"\<close>, the factory returns the memory adapter and raises no
  error.
\<close>

theorem C9_unknown_kind_gives_memory:
  "db_adapter c \<notin> {JStr ''memory'', JStr ''json'', JStr ''postgres'', JStr ''mongodb''} \<Longrightarrow>
   createDbAdapter root (Some c) env = Inr MemoryDbAdapter"
  by (cases "db_adapter c") (simp_all add: createDbAdapter_def)

theorem C9_witness:
  "JStr ''sqlite'' \<notin> {JStr ''memory'', JStr ''json'', JStr ''postgres'', JStr ''mongodb''} \<and>
   createDbAdapter ''/app''
     (Some \<lparr>db_adapter = JStr ''sqlite'', db_json = None, db_postgres = None, db_mongodb = None\<rparr>)
     Map.empty = Inr MemoryDbAdapter"
  using C9_unknown_kind_gives_memory
    [of "\<lparr>db_adapter = JStr ''sqlite'', db_json = None, db_postgres = None, db_mongodb = None\<rparr>"
        "''/app''" Map.empty]
  by simp

lemma postgresConnectionStringError_names:
  "str_includes postgresConnectionStringError ''connection string''"
  "str_includes postgresConnectionStringError ''db.postgres.connectionString''"
  "str_includes postgresConnectionStringError ''DATABASE_URL''"
  by (simp_all add: postgresConnectionStringError_def)

lemma mongoConnectionStringError_names:
  "str_includes mongoConnectionStringError ''connection string''"
  "str_includes mongoConnectionStringError ''db.mongodb.connectionString''"
  "str_includes mongoConnectionStringError ''MONGODB_URI''"
  by (simp_all add: mongoConnectionStringError_def)

lemma mongoDbNameError_names:
  "str_includes mongoDbNameError ''database name''"
  "str_includes mongoDbNameError ''db.mongodb.dbName''"
  "str_includes mongoDbNameError ''MONGODB_DB''"
  by (simp_all add: mongoDbNameError_def)

text \<open>
  Claim C7. Asked for the relational or the document adapter, with a required setting (the
  connection string, or the database name of the document backend) neither in the
  configuration nor in its environment variable, the factory returns an error and no adapter,
  and the message names the setting, the configuration key and the environment variable.
\<close>

theorem C7_missing_setting_is_an_error:
  "(db_adapter c = JStr ''postgres'' \<and>
    Option.bind (db_postgres c) pg_connectionString = None \<and> env ''DATABASE_URL'' = None \<longrightarrow>
      (\<exists>msg. createDbAdapter root (Some c) env = Inl msg \<and>
             str_includes msg ''connection string'' \<and>
             str_includes msg ''db.postgres.connectionString'' \<and>
             str_includes msg ''DATABASE_URL'')) \<and>
   (db_adapter c = JStr ''mongodb'' \<and>
    Option.bind (db_mongodb c) mongo_connectionString = None \<and> env ''MONGODB_URI'' = None \<longrightarrow>
      (\<exists>msg. createDbAdapter root (Some c) env = Inl msg \<and>
             str_includes msg ''connection string'' \<and>
             str_includes msg ''db.mongodb.connectionString'' \<and>
             str_includes msg ''MONGODB_URI'')) \<and>
   (db_adapter c = JStr ''mongodb'' \<and>
    \<not> missing (orElse (Option.bind (db_mongodb c) mongo_connectionString) (env ''MONGODB_URI'')) \<and>
    Option.bind (db_mongodb c) mongo_dbName = None \<and> env ''MONGODB_DB'' = None \<longrightarrow>
      (\<exists>msg. createDbAdapter root (Some c) env = Inl msg \<and>
             str_includes msg ''database name'' \<and>
             str_includes msg ''db.mongodb.dbName'' \<and>
             str_includes msg ''MONGODB_DB''))"
  by (simp add: createDbAdapter_def orElse_def missing_def postgresConnectionStringError_names
      mongoConnectionStringError_names mongoDbNameError_names)

theorem C7_witness:
  "db_adapter \<lparr>db_adapter = JStr ''postgres'', db_json = None,
               db_postgres = Some \<lparr>pg_connectionString = None, pg_schema = Some ''public''\<rparr>,
               db_mongodb = None\<rparr> = JStr ''postgres'' \<and>
   createDbAdapter ''/app''
     (Some \<lparr>db_adapter = JStr ''postgres'', db_json = None,
            db_postgres = Some \<lparr>pg_connectionString = None, pg_schema = Some ''public''\<rparr>,
            db_mongodb = None\<rparr>)
     Map.empty = Inl postgresConnectionStringError \<and>
   createDbAdapter ''/app''
     (Some \<lparr>db_adapter = JStr ''mongodb'', db_json = None, db_postgres = None, db_mongodb = None\<rparr>)
     [''MONGODB_URI'' \<mapsto> ''mongodb://localhost:27017''] = Inl mongoDbNameError \<and>
   createDbAdapter ''/app''
     (Some \<lparr>db_adapter = JStr ''mongodb'', db_json = None, db_postgres = None, db_mongodb = None\<rparr>)
     Map.empty = Inl mongoConnectionStringError"
  using C7_missing_setting_is_an_error
      [of "\<lparr>db_adapter = JStr ''postgres'', db_json = None,
            db_postgres = Some \<lparr>pg_connectionString = None, pg_schema = Some ''public''\<rparr>,
            db_mongodb = None\<rparr>" Map.empty "''/app''"]
    C7_missing_setting_is_an_error
      [of "\<lparr>db_adapter = JStr ''mongodb'', db_json = None, db_postgres = None, db_mongodb = None\<rparr>"
          "[''MONGODB_URI'' \<mapsto> ''mongodb://localhost:27017'']" "''/app''"]
    C7_missing_setting_is_an_error
      [of "\<lparr>db_adapter = JStr ''mongodb'', db_json = None, db_postgres = None, db_mongodb = None\<rparr>"
          Map.empty "''/app''"]
  by (simp add: createDbAdapter_def orElse_def missing_def postgresConnectionStringError_names
      mongoConnectionStringError_names mongoDbNameError_names)


section \<open>Round trip\<close>

lemma mem_create_eq:
  "mem_create items p uuid now =
     (Map_set uuid ([''id'' \<mapsto> JStr uuid, ''createdAt'' \<mapsto> JStr now, ''updatedAt'' \<mapsto> JStr now]
                     ++ sanitizeClientPayload p) items,
      [''id'' \<mapsto> JStr uuid, ''createdAt'' \<mapsto> JStr now, ''updatedAt'' \<mapsto> JStr now]
        ++ sanitizeClientPayload p)"
  by (simp add: mem_create_def Let_def create_item_id)


lemma insertDocument_plain:
  "map_of structured ''_id'' = None \<Longrightarrow>
   insertDocument structured ts fresh =
     \<lparr>doc_id = Some (ObjectId fresh), createdAt = ts, updatedAt = ts, rest = map_of structured\<rparr>"
  by (simp add: insertDocument_def)

lemma insertDocument_foreign:
  "map_of structured ''_id'' = Some v \<Longrightarrow>
   insertDocument structured ts fresh =
     \<lparr>doc_id = Some (Foreign v), createdAt = ts, updatedAt = ts, rest = map_of structured\<rparr>"
  by (simp add: insertDocument_def)


lemma mongo_create_plain:
  assumes noid: "map_of (pickStructuredInsert (model_schema model) p) ''_id'' = None"
    and ins: "insertOne \<lparr>doc_id = Some (ObjectId fresh), createdAt = ts, updatedAt = ts,
                   rest = map_of (pickStructuredInsert (model_schema model) p)\<rparr>
              = Inr (ObjectId oid)"
  shows "mongo_create rt model (Inr ()) insertOne p ts fresh =
     Inr ([''id'' \<mapsto> JStr (toHexString rt oid), ''createdAt'' \<mapsto> JStr (toISOString rt ts),
           ''updatedAt'' \<mapsto> JStr (toISOString rt ts)]
          ++ (map_of (pickStructuredInsert (model_schema model) p)
                |` (- {''_id'', ''createdAt'', ''updatedAt''})))"
  by (simp add: mongo_create_def Let_def insertDocument_plain [OF noid] ins docToCrudItem_def)



lemma pg_create_row:
  assumes ins: "q (sql_insert fullName) [uuid, pg_stringify prt (sanitizeClientPayload p)]
                = Inr res"
    and rws: "rows res = r # rs"
    and conv: "rowToCrudItem prt clock r = Inr item"
  shows "pg_create prt model fullName (Inr ()) (Inr q) clock p uuid = Inr item"
  by (simp add: pg_create_def Let_def ins rws conv)


lemma rowToCrudItem_dates:
  "created_at r = PgDate c \<Longrightarrow> updated_at r = PgDate u \<Longrightarrow>
   rowToCrudItem prt clock r =
     Inr ([''id'' \<mapsto> JStr (row_id r), ''createdAt'' \<mapsto> JStr (pg_toISOString prt c),
           ''updatedAt'' \<mapsto> JStr (pg_toISOString prt u)] ++ data r)"
  by (simp add: rowToCrudItem_def nowIsoFromPg_def)





section \<open>The order of getAll\<close>

lemma update_absent_append: "k \<notin> fst ` set al \<Longrightarrow> AList.update k v al = al @ [(k, v)]"
  by (induction al) auto

lemma Map_set_fresh:
  "Map_get items k = None \<Longrightarrow> Map_values (Map_set k v items) = Map_values items @ [v]"
  by (simp add: Map_get_def Map_set_def Map_values_def map_of_eq_None_iff update_absent_append)

lemma Map_set_present_keys:
  "Map_get items k = Some old \<Longrightarrow> map fst (Map_set k v items) = map fst items"
proof -
  assume "Map_get items k = Some old"
  then have "k \<in> fst ` set items"
    by (auto simp: Map_get_def dest: map_of_SomeD intro: rev_image_eqI)
  then show ?thesis
    by (simp add: Map_set_def update_keys)
qed

lemma Map_values_snapshot:
  "distinct (map fst items) \<Longrightarrow> (r \<in> set (Map_values items)) = (\<exists>k. Map_get items k = Some r)"
  by (auto simp: Map_values_def Map_get_def) force

lemma Map_set_distinct: "distinct (map fst items) \<Longrightarrow> distinct (map fst (Map_set k v items))"
  by (simp add: Map_set_def distinct_update)

lemma Map_delete_distinct:
  "distinct (map fst items) \<Longrightarrow> distinct (map fst (fst (Map_delete items k)))"
  by (simp add: Map_delete_def distinct_delete)

lemma Map_delete_values:
  "Map_values (fst (Map_delete items k)) = map snd (filter (\<lambda>e. fst e \<noteq> k) items)"
  by (induction items) (simp_all add: Map_delete_def Map_values_def)

lemma rowsToCrudItems_order:
  "rowsToCrudItems prt clock rs = Inr xs \<Longrightarrow>
   list_all2 (\<lambda>r x. rowToCrudItem prt clock r = Inr x) rs xs"
  by (induction rs arbitrary: xs) (auto split: sum.splits)

lemma mem_update_eq:
  "Map_get items i = Some existing \<Longrightarrow>
   mem_update items i p now =
     (Map_set i ((existing ++ sanitizeClientPayload p)(''updatedAt'' \<mapsto> JStr now)) items,
      Some ((existing ++ sanitizeClientPayload p)(''updatedAt'' \<mapsto> JStr now)))"
  by (simp add: mem_update_def Let_def)

lemma json_create_as_mem:
  "\<exists>files'. json_create env st p uuid now ms =
      Inr ((files', fst (mem_create (snd st) p uuid now)), snd (mem_create (snd st) p uuid now))"
  by (simp add: json_create_def mem_create_def Let_def flush_eq)

lemma json_update_as_mem:
  "\<exists>files'. json_update env st i p now ms =
      Inr ((files', fst (mem_update (snd st) i p now)), snd (mem_update (snd st) i p now))"
proof (cases "Map_get (snd st) i")
  case None
  then have "json_update env st i p now ms = Inr ((fst st, snd st), None)"
    by (simp add: json_update_def)
  with None show ?thesis
    by (cases st) (simp add: mem_update_def)
next
  case (Some existing)
  then show ?thesis
    by (simp add: json_update_def mem_update_def Let_def flush_eq)
qed

lemma json_delete_as_mem:
  "\<exists>files'. json_delete env st i ms =
      Inr ((files', fst (mem_delete (snd st) i)), snd (mem_delete (snd st) i))"
  by (cases "Map_delete (snd st) i") (simp add: json_delete_def mem_delete_def flush_eq)

lemma mem_update_distinct:
  "distinct (map fst items) \<Longrightarrow> distinct (map fst (fst (mem_update items i p now)))"
  by (cases "Map_get items i") (simp_all add: mem_update_def Map_set_distinct Let_def)

lemma docsToCrudItems_order:
  "docsToCrudItems rt ds = Inr xs \<Longrightarrow> list_all2 (\<lambda>d x. docToCrudItem rt d = Inr x) ds xs"
  by (induction ds arbitrary: xs) (auto split: sum.splits)

lemma pg_getAll_rows:
  assumes "pg_getAll prt model fullName (Inr ()) (Inr q) clock = Inr xs"
  shows "\<exists>result. q (sql_selectAll fullName) [] = Inr result \<and>
                  list_all2 (\<lambda>r x. rowToCrudItem prt clock r = Inr x) (rows result) xs"
  using assms
  by (auto simp: pg_getAll_def Let_def rowsToCrudItems_order split: sum.splits)

lemma pg_getAll_converted:
  "q (sql_selectAll fullName) [] = Inr result \<Longrightarrow>
   rowsToCrudItems prt clock (rows result) = Inr xs \<Longrightarrow>
   pg_getAll prt model fullName (Inr ()) (Inr q) clock = Inr xs"
  by (simp add: pg_getAll_def Let_def)

lemma mongo_getAll_docs:
  assumes "mongo_getAll rt model (Inr ()) findToArray = Inr xs"
  shows "\<exists>docs. findToArray \<lparr>find_filter = [], find_sort = [(''_id'', 1)]\<rparr> = Inr docs \<and>
                list_all2 (\<lambda>d x. docToCrudItem rt d = Inr x) docs xs"
  using assms
  by (auto simp: mongo_getAll_def docsToCrudItems_order split: sum.splits)

lemma mongo_getAll_converted:
  "findToArray \<lparr>find_filter = [], find_sort = [(''_id'', 1)]\<rparr> = Inr docs \<Longrightarrow>
   docsToCrudItems rt docs = Inr xs \<Longrightarrow>
   mongo_getAll rt model (Inr ()) findToArray = Inr xs"
  by (simp add: mongo_getAll_def)

text \<open>
  Claim C4, as stated, fails: the memory store lists its records in the order they were
  created, not by id. Two records created with the ids \<open>b3d1...\<close> and then \<open>1c4f...\<close>
  are returned in that order.
\<close>

theorem C4_counterexample:
  "map item_id (mem_getAll (fst (mem_create
       (fst (mem_create createInMemoryStore JNull ''b3d1f0e2-5a6c-4e1d-9f00-000000000001'' ex_time))
       JNull ''1c4f9a7e-2b3d-4c5e-8a00-000000000002'' ex_time)))
     = [''b3d1f0e2-5a6c-4e1d-9f00-000000000001'', ''1c4f9a7e-2b3d-4c5e-8a00-000000000002''] \<and>
   \<not> sorted (map item_id (mem_getAll (fst (mem_create
       (fst (mem_create createInMemoryStore JNull ''b3d1f0e2-5a6c-4e1d-9f00-000000000001'' ex_time))
       JNull ''1c4f9a7e-2b3d-4c5e-8a00-000000000002'' ex_time))))"
  by (simp add: mem_create_eq createInMemoryStore_def mem_getAll_def Map_values_def Map_set_def
      item_id_def sanitizeClientPayload_def)

text \<open>
  Claim C4, amended. \<open>getAll\<close> returns the full snapshot of the stored records. The memory
  store and the file store return it in the map's insertion order: a record created under an
  id not in the map comes last, an update keeps every record's place, a delete takes the
  record out, and the keys stay distinct; the file store's map is operated as the memory
  store's. The relational adapter sends the query
  \<open>SELECT id, created_at, updated_at, data FROM t ORDER BY id ASC\<close> and the document adapter
  asks the driver for every document sorted by \<open>{ _id: 1 }\<close>: each asks its engine for
  ascending id order, and returns the engine's rows or documents, converted, in the order the
  engine delivers them.
\<close>

theorem C4_getAll_insertion_order:
  "(distinct (map fst items) \<longrightarrow>
      (\<forall>r. (r \<in> set (mem_getAll items)) = (\<exists>k. mem_getById items k = Some r))) \<and>
   (mem_getById items uuid = None \<longrightarrow>
      mem_getAll (fst (mem_create items p uuid now)) =
        mem_getAll items @ [snd (mem_create items p uuid now)]) \<and>
   (mem_getById items i = Some existing \<longrightarrow>
      map fst (fst (mem_update items i p now)) = map fst items) \<and>
   mem_getAll (fst (mem_delete items i)) = map snd (filter (\<lambda>e. fst e \<noteq> i) items) \<and>
   (distinct (map fst items) \<longrightarrow>
      distinct (map fst (fst (mem_create items p uuid now))) \<and>
      distinct (map fst (fst (mem_update items i p now))) \<and>
      distinct (map fst (fst (mem_delete items i)))) \<and>
   json_getAll st = mem_getAll (snd st) \<and>
   (\<exists>files'. json_create env st p uuid now ms =
      Inr ((files', fst (mem_create (snd st) p uuid now)), snd (mem_create (snd st) p uuid now))) \<and>
   (\<exists>files'. json_update env st i p now ms =
      Inr ((files', fst (mem_update (snd st) i p now)), snd (mem_update (snd st) i p now))) \<and>
   (\<exists>files'. json_delete env st i ms =
      Inr ((files', fst (mem_delete (snd st) i)), snd (mem_delete (snd st) i))) \<and>
   sql_selectAll fullName =
     ''SELECT id, created_at, updated_at, data FROM '' @ fullName @ '' ORDER BY id ASC'' \<and>
   (pg_getAll prt model fullName (Inr ()) (Inr q) clock = Inr xs \<longrightarrow>
      (\<exists>result. q (sql_selectAll fullName) [] = Inr result \<and>
                 list_all2 (\<lambda>r x. rowToCrudItem prt clock r = Inr x) (rows result) xs)) \<and>
   (q (sql_selectAll fullName) [] = Inr result \<and>
    rowsToCrudItems prt clock (rows result) = Inr ys \<longrightarrow>
      pg_getAll prt model fullName (Inr ()) (Inr q) clock = Inr ys) \<and>
   (mongo_getAll rt model (Inr ()) findToArray = Inr zs \<longrightarrow>
      (\<exists>docs. findToArray \<lparr>find_filter = [], find_sort = [(''_id'', 1)]\<rparr> = Inr docs \<and>
               list_all2 (\<lambda>d x. docToCrudItem rt d = Inr x) docs zs)) \<and>
   (findToArray \<lparr>find_filter = [], find_sort = [(''_id'', 1)]\<rparr> = Inr docs \<and>
    docsToCrudItems rt docs = Inr ws \<longrightarrow>
      mongo_getAll rt model (Inr ()) findToArray = Inr ws)"
proof -
  have snap: "distinct (map fst items) \<longrightarrow>
      (\<forall>r. (r \<in> set (mem_getAll items)) = (\<exists>k. mem_getById items k = Some r))"
    by (simp add: mem_getAll_def mem_getById_def Map_values_snapshot)
  have app: "mem_getById items uuid = None \<longrightarrow>
      mem_getAll (fst (mem_create items p uuid now)) =
        mem_getAll items @ [snd (mem_create items p uuid now)]"
    by (simp add: mem_getById_def mem_getAll_def mem_create_eq Map_set_fresh)
  have upd: "mem_getById items i = Some existing \<longrightarrow>
      map fst (fst (mem_update items i p now)) = map fst items"
    by (simp add: mem_getById_def mem_update_eq Map_set_present_keys)
  have del: "mem_getAll (fst (mem_delete items i)) = map snd (filter (\<lambda>e. fst e \<noteq> i) items)"
    by (simp add: mem_getAll_def mem_delete_def Map_delete_values)
  have dist: "distinct (map fst items) \<longrightarrow>
      distinct (map fst (fst (mem_create items p uuid now))) \<and>
      distinct (map fst (fst (mem_update items i p now))) \<and>
      distinct (map fst (fst (mem_delete items i)))"
    by (simp add: mem_create_eq Map_set_distinct mem_update_distinct mem_delete_def
        Map_delete_distinct)
  have js: "json_getAll st = mem_getAll (snd st)"
    by (simp add: json_getAll_def mem_getAll_def)
  have stmt: "sql_selectAll fullName =
     ''SELECT id, created_at, updated_at, data FROM '' @ fullName @ '' ORDER BY id ASC''"
    by (simp add: sql_selectAll_def)
  have pg: "pg_getAll prt model fullName (Inr ()) (Inr q) clock = Inr xs \<longrightarrow>
      (\<exists>result. q (sql_selectAll fullName) [] = Inr result \<and>
                 list_all2 (\<lambda>r x. rowToCrudItem prt clock r = Inr x) (rows result) xs)"
    by (intro impI) (rule pg_getAll_rows)
  have pg': "q (sql_selectAll fullName) [] = Inr result \<and>
    rowsToCrudItems prt clock (rows result) = Inr ys \<longrightarrow>
      pg_getAll prt model fullName (Inr ()) (Inr q) clock = Inr ys"
    by (intro impI, elim conjE) (rule pg_getAll_converted)
  have mg: "mongo_getAll rt model (Inr ()) findToArray = Inr zs \<longrightarrow>
      (\<exists>docs. findToArray \<lparr>find_filter = [], find_sort = [(''_id'', 1)]\<rparr> = Inr docs \<and>
               list_all2 (\<lambda>d x. docToCrudItem rt d = Inr x) docs zs)"
    by (intro impI) (rule mongo_getAll_docs)
  have mg': "findToArray \<lparr>find_filter = [], find_sort = [(''_id'', 1)]\<rparr> = Inr docs \<and>
    docsToCrudItems rt docs = Inr ws \<longrightarrow>
      mongo_getAll rt model (Inr ()) findToArray = Inr ws"
    by (intro impI, elim conjE) (rule mongo_getAll_converted)
  from snap app upd del dist js json_create_as_mem [of env st p uuid now ms]
    json_update_as_mem [of env st i p now ms] json_delete_as_mem [of env st i ms]
    stmt pg pg' mg mg'
  show ?thesis by (intro conjI)
qed

theorem C4_witness:
  "distinct (map fst ex_items) \<and>
   (\<forall>r. (r \<in> set (mem_getAll ex_items)) = (\<exists>k. mem_getById ex_items k = Some r)) \<and>
   mem_getById ex_items ''u1'' = None \<and>
   mem_getAll (fst (mem_create ex_items ex_payload ''u1'' ex_time)) =
     mem_getAll ex_items @ [snd (mem_create ex_items ex_payload ''u1'' ex_time)] \<and>
   mem_getById ex_items ''u0'' = Some ex_item \<and>
   map fst (fst (mem_update ex_items ''u0'' ex_payload ex_time)) = map fst ex_items \<and>
   distinct (map fst (fst (mem_create ex_items ex_payload ''u1'' ex_time))) \<and>
   ex_query (sql_selectAll ex_fullName) [] = Inr \<lparr>rows = [ex_row], rowCount = Some 1\<rparr> \<and>
   pg_getAll ex_prt ex_model ex_fullName (Inr ()) (Inr ex_query) 9 =
     Inr [[''id'' \<mapsto> JStr ''u1'', ''createdAt'' \<mapsto> JStr ''7'', ''updatedAt'' \<mapsto> JStr ''7'']
          ++ [''title'' \<mapsto> JStr ''Buy milk'']] \<and>
   (\<exists>result. ex_query (sql_selectAll ex_fullName) [] = Inr result \<and>
      list_all2 (\<lambda>r x. rowToCrudItem ex_prt 9 r = Inr x) (rows result)
        [[''id'' \<mapsto> JStr ''u1'', ''createdAt'' \<mapsto> JStr ''7'', ''updatedAt'' \<mapsto> JStr ''7'']
         ++ [''title'' \<mapsto> JStr ''Buy milk'']]) \<and>
   ex_findToArray \<lparr>find_filter = [], find_sort = [(''_id'', 1)]\<rparr> = Inr [ex_doc] \<and>
   (\<exists>x. docToCrudItem ex_rt ex_doc = Inr x \<and>
        mongo_getAll ex_rt ex_model (Inr ()) ex_findToArray = Inr [x] \<and>
        (\<exists>docs. ex_findToArray \<lparr>find_filter = [], find_sort = [(''_id'', 1)]\<rparr> = Inr docs \<and>
                 list_all2 (\<lambda>d x. docToCrudItem ex_rt d = Inr x) docs [x]))"
proof -
  let ?x = "[''id'' \<mapsto> JStr ''u1'', ''createdAt'' \<mapsto> JStr ''7'', ''updatedAt'' \<mapsto> JStr ''7'']
          ++ [''title'' \<mapsto> JStr ''Buy milk'']"
  let ?d = "[''id'' \<mapsto> JStr ex_oid, ''createdAt'' \<mapsto> JStr ''7'', ''updatedAt'' \<mapsto> JStr ''7'']
          ++ (rest ex_doc |` (- {''_id'', ''createdAt'', ''updatedAt''}))"
  note T = C4_getAll_insertion_order
    [where items = ex_items and uuid = "''u1''" and p = ex_payload and now = ex_time
       and i = "''u0''" and existing = ex_item and prt = ex_prt and model = ex_model
       and fullName = ex_fullName and q = ex_query and clock = 9
       and result = "\<lparr>rows = [ex_row], rowCount = Some 1\<rparr>"
       and xs = "[?x]" and ys = "[?x]" and rt = ex_rt and findToArray = ex_findToArray
       and docs = "[ex_doc]" and zs = "[?d]" and ws = "[?d]"]
  have d: "distinct (map fst ex_items)"
    by (simp add: ex_items_def)
  have g1: "mem_getById ex_items ''u1'' = None"
    by (simp add: mem_getById_def Map_get_def ex_items_def)
  have g0: "mem_getById ex_items ''u0'' = Some ex_item"
    by (simp add: mem_getById_def Map_get_def ex_items_def)
  have q: "ex_query (sql_selectAll ex_fullName) [] = Inr \<lparr>rows = [ex_row], rowCount = Some 1\<rparr>"
    by (simp add: ex_query_def sql_selectAll_def sql_insert_def sql_selectById_def ex_fullName_def)
  have conv: "rowsToCrudItems ex_prt 9 (rows \<lparr>rows = [ex_row], rowCount = Some 1\<rparr>) = Inr [?x]"
    by (simp add: rowToCrudItem_def nowIsoFromPg_def ex_row_def ex_prt_def dec.simps digit_def)
  have f: "ex_findToArray \<lparr>find_filter = [], find_sort = [(''_id'', 1)]\<rparr> = Inr [ex_doc]"
    by (simp add: ex_findToArray_def)
  have dx: "docToCrudItem ex_rt ex_doc = Inr ?d"
    by (simp add: docToCrudItem_def ex_doc_def ex_rt_def dec.simps digit_def)
  then have dconv: "docsToCrudItems ex_rt [ex_doc] = Inr [?d]"
    by simp
  have s1: "\<forall>r. (r \<in> set (mem_getAll ex_items)) = (\<exists>k. mem_getById ex_items k = Some r)"
    by (rule T [THEN conjunct1, THEN mp, OF d])
  note T2 = T [THEN conjunct2]
  have s2: "mem_getAll (fst (mem_create ex_items ex_payload ''u1'' ex_time)) =
     mem_getAll ex_items @ [snd (mem_create ex_items ex_payload ''u1'' ex_time)]"
    by (rule T2 [THEN conjunct1, THEN mp, OF g1])
  note T3 = T2 [THEN conjunct2]
  have s3: "map fst (fst (mem_update ex_items ''u0'' ex_payload ex_time)) = map fst ex_items"
    by (rule T3 [THEN conjunct1, THEN mp, OF g0])
  note T5 = T3 [THEN conjunct2, THEN conjunct2]
  have s5: "distinct (map fst (fst (mem_create ex_items ex_payload ''u1'' ex_time)))"
    by (rule T5 [THEN conjunct1, THEN mp, OF d, THEN conjunct1])
  note T11 = T5 [THEN conjunct2, THEN conjunct2, THEN conjunct2, THEN conjunct2, THEN conjunct2,
      THEN conjunct2]
  have pg: "pg_getAll ex_prt ex_model ex_fullName (Inr ()) (Inr ex_query) 9 = Inr [?x]"
    by (rule T11 [THEN conjunct2, THEN conjunct1, THEN mp, OF conjI [OF q conv]])
  have pgr: "\<exists>result. ex_query (sql_selectAll ex_fullName) [] = Inr result \<and>
      list_all2 (\<lambda>r x. rowToCrudItem ex_prt 9 r = Inr x) (rows result) [?x]"
    by (rule T11 [THEN conjunct1, THEN mp, OF pg])
  note T13 = T11 [THEN conjunct2, THEN conjunct2]
  have mg: "mongo_getAll ex_rt ex_model (Inr ()) ex_findToArray = Inr [?d]"
    by (rule T13 [THEN conjunct2, THEN mp, OF conjI [OF f dconv]])
  have mgr: "\<exists>docs. ex_findToArray \<lparr>find_filter = [], find_sort = [(''_id'', 1)]\<rparr> = Inr docs \<and>
                 list_all2 (\<lambda>d x. docToCrudItem ex_rt d = Inr x) docs [?d]"
    by (rule T13 [THEN conjunct1, THEN mp, OF mg])
  from dx mg mgr have m: "\<exists>x. docToCrudItem ex_rt ex_doc = Inr x \<and>
        mongo_getAll ex_rt ex_model (Inr ()) ex_findToArray = Inr [x] \<and>
        (\<exists>docs. ex_findToArray \<lparr>find_filter = [], find_sort = [(''_id'', 1)]\<rparr> = Inr docs \<and>
                 list_all2 (\<lambda>d x. docToCrudItem ex_rt d = Inr x) docs [x])"
    by (intro exI [of _ ?d] conjI)
  from d s1 g1 s2 g0 s3 s5 q pg pgr f m show ?thesis
    by (intro conjI)
qed


section \<open>Update\<close>







lemma sanitize_fields:
  "sanitizeClientPayload p k =
      (if k \<in> {''id'', ''createdAt'', ''updatedAt''} then None else own_props p k)"
  using sanitize_reserved [of k p] sanitize_other [of k p] by (simp split: if_splits)








section \<open>Create\<close>

lemma created_fields:
  "([''id'' \<mapsto> JStr uuid, ''createdAt'' \<mapsto> JStr now, ''updatedAt'' \<mapsto> JStr now]
      ++ sanitizeClientPayload p) ''id'' = Some (JStr uuid)"
  "([''id'' \<mapsto> JStr uuid, ''createdAt'' \<mapsto> JStr now, ''updatedAt'' \<mapsto> JStr now]
      ++ sanitizeClientPayload p) ''createdAt'' = Some (JStr now)"
  "([''id'' \<mapsto> JStr uuid, ''createdAt'' \<mapsto> JStr now, ''updatedAt'' \<mapsto> JStr now]
      ++ sanitizeClientPayload p) ''updatedAt'' = Some (JStr now)"
  by (simp_all add: map_add_def sanitize_reserved)

lemma created_other:
  "k \<notin> {''id'', ''createdAt'', ''updatedAt''} \<Longrightarrow>
   ([''id'' \<mapsto> JStr uuid, ''createdAt'' \<mapsto> JStr now, ''updatedAt'' \<mapsto> JStr now]
      ++ sanitizeClientPayload p) k = own_props p k"
  by (simp add: map_add_def sanitize_other split: option.splits)

lemma sanitize_idem: "sanitizeClientPayload (JObj (sanitizeClientPayload p)) = sanitizeClientPayload p"
  by (rule ext) (simp add: sanitizeClientPayload_def restrict_map_def)

lemma pg_create_sanitize:
  assumes "sanitizeClientPayload p = sanitizeClientPayload q"
  shows "pg_create prt model fullName ready pool clock p uuid =
         pg_create prt model fullName ready pool clock q uuid"
  unfolding pg_create_def assms by (rule refl)

lemma mongo_create_fields:
  assumes pn: "map_of (pickStructuredInsert (model_schema model) p) ''_id'' = None"
    and ins: "insertOne \<lparr>doc_id = Some (ObjectId fresh), createdAt = ts, updatedAt = ts,
                   rest = map_of (pickStructuredInsert (model_schema model) p)\<rparr>
              = Inr (ObjectId oid)"
  shows "\<exists>item. mongo_create rt model (Inr ()) insertOne p ts fresh = Inr item \<and>
           item ''id'' = Some (JStr (toHexString rt oid)) \<and>
           item ''createdAt'' = Some (JStr (toISOString rt ts)) \<and>
           item ''updatedAt'' = Some (JStr (toISOString rt ts)) \<and>
           (\<forall>k. k \<notin> {''id'', ''createdAt'', ''updatedAt''} \<longrightarrow>
                item k = map_of (pickStructuredInsert (model_schema model) p) k)"
proof -
  let ?item = "[''id'' \<mapsto> JStr (toHexString rt oid), ''createdAt'' \<mapsto> JStr (toISOString rt ts),
                ''updatedAt'' \<mapsto> JStr (toISOString rt ts)]
               ++ (map_of (pickStructuredInsert (model_schema model) p)
                     |` (- {''_id'', ''createdAt'', ''updatedAt''}))"
  have c: "mongo_create rt model (Inr ()) insertOne p ts fresh = Inr ?item"
    using pn ins by (rule mongo_create_plain)
  have f: "?item ''id'' = Some (JStr (toHexString rt oid))"
    "?item ''createdAt'' = Some (JStr (toISOString rt ts))"
    "?item ''updatedAt'' = Some (JStr (toISOString rt ts))"
    by (simp_all add: map_add_def restrict_map_def pick_no_id)
  have o: "\<forall>k. k \<notin> {''id'', ''createdAt'', ''updatedAt''} \<longrightarrow>
                ?item k = map_of (pickStructuredInsert (model_schema model) p) k"
    by (simp add: map_add_def restrict_map_def pn split: option.splits)
  from c f o show ?thesis
    by (intro exI [of _ ?item] conjI)
qed

lemma pg_create_fields:
  assumes ins: "q (sql_insert fullName) [uuid, pg_stringify prt (sanitizeClientPayload p)]
                = Inr res"
    and rws: "rows res = r # rs"
    and rid: "row_id r = uuid"
    and c: "created_at r = PgDate t" and u: "updated_at r = PgDate t"
    and d: "data r ''id'' = None" "data r ''createdAt'' = None" "data r ''updatedAt'' = None"
  shows "\<exists>item. pg_create prt model fullName (Inr ()) (Inr q) clock p uuid = Inr item \<and>
           item ''id'' = Some (JStr uuid) \<and>
           item ''createdAt'' = Some (JStr (pg_toISOString prt t)) \<and>
           item ''updatedAt'' = Some (JStr (pg_toISOString prt t)) \<and>
           (\<forall>k. k \<notin> {''id'', ''createdAt'', ''updatedAt''} \<longrightarrow> item k = data r k)"
proof -
  let ?item = "[''id'' \<mapsto> JStr (row_id r), ''createdAt'' \<mapsto> JStr (pg_toISOString prt t),
                ''updatedAt'' \<mapsto> JStr (pg_toISOString prt t)] ++ data r"
  have cr: "pg_create prt model fullName (Inr ()) (Inr q) clock p uuid = Inr ?item"
    using ins rws rowToCrudItem_dates [OF c u] by (rule pg_create_row)
  have f: "?item ''id'' = Some (JStr uuid)"
    "?item ''createdAt'' = Some (JStr (pg_toISOString prt t))"
    "?item ''updatedAt'' = Some (JStr (pg_toISOString prt t))"
    by (simp_all add: map_add_def d rid)
  have o: "\<forall>k. k \<notin> {''id'', ''createdAt'', ''updatedAt''} \<longrightarrow> ?item k = data r k"
    by (simp add: map_add_def split: option.splits)
  from cr f o show ?thesis
    by (intro exI [of _ ?item] conjI)
qed

lemma sql_insert_text:
  "sql_insert fullName =
     ''INSERT INTO '' @ fullName @
     '' (id, data) VALUES ($1, $2::jsonb) RETURNING id, created_at, updated_at, data''"
  by (simp add: sql_insert_def)

text \<open>
  Claim C2, as stated, fails in the memory store, which is given no schema: a field of the
  payload that the entity's schema does not declare is stored and returned. In the document
  adapter, for a schema that declares the fields \<open>toString\<close> and \<open>_id\<close>, the field
  picker takes for the payload \<open>{}\<close> the field \<open>toString\<close>, which the payload does
  not have (the read \<open>raw[key]\<close> gives the member of \<open>Object.prototype\<close>), and
  \<open>create\<close> with a payload that has \<open>_id\<close> inserts the document under that value
  and throws: it returns no record.
\<close>

theorem C2_counterexample:
  "snd (mem_create createInMemoryStore
          (JObj [''title'' \<mapsto> JStr ''Buy milk'', ''extra'' \<mapsto> JNum 1]) ''u1'' ex_time) ''extra''
     = Some (JNum 1) \<and>
   ''extra'' \<notin> set (schema_keys (model_schema ex_model)) \<and>
   own_props (JObj Map.empty) ''toString'' = None \<and>
   pickStructuredInsert (model_schema ex_note) (JObj Map.empty) =
     [(''toString'', JFunction ''toString'')] \<and>
   mongo_create ex_rt ex_note (Inr ()) ex_insertOne (JObj [''_id'' \<mapsto> JStr ''abc'']) 7 ex_oid =
     Inl ''MongoDB (Note) create failed: _id.toHexString is not a function''"
proof -
  have m: "snd (mem_create createInMemoryStore
          (JObj [''title'' \<mapsto> JStr ''Buy milk'', ''extra'' \<mapsto> JNum 1]) ''u1'' ex_time) ''extra''
     = Some (JNum 1)"
    by (simp add: mem_create_eq created_other)
  have e: "''extra'' \<notin> set (schema_keys (model_schema ex_model))"
    by (simp add: schema_keys_def ex_model_def)
  have o: "own_props (JObj Map.empty) ''toString'' = None"
    by simp
  have p: "pickStructuredInsert (model_schema ex_note) (JObj Map.empty) =
     [(''toString'', JFunction ''toString'')]"
    by (simp add: pickStructuredInsert_def ex_note_def schema_keys_def obj_get_def proto_get_def
        objectPrototypeFunctions_def sanitizeClientPayload_def obj_assign_def)
  have q: "pickStructuredInsert (model_schema ex_note) (JObj [''_id'' \<mapsto> JStr ''abc'']) =
     [(''_id'', JStr ''abc''), (''toString'', JFunction ''toString'')]"
    by (simp add: pickStructuredInsert_def ex_note_def schema_keys_def obj_get_def proto_get_def
        objectPrototypeFunctions_def sanitizeClientPayload_def obj_assign_def)
  have c: "mongo_create ex_rt ex_note (Inr ()) ex_insertOne (JObj [''_id'' \<mapsto> JStr ''abc'']) 7 ex_oid =
     Inl ''MongoDB (Note) create failed: _id.toHexString is not a function''"
  proof -
    have nm: "model_name ex_note = ''Note''"
      by (simp add: ex_note_def)
    have own: "map_of (pickStructuredInsert (model_schema ex_note) (JObj [''_id'' \<mapsto> JStr ''abc'']))
        ''_id'' = Some (JStr ''abc'')"
      by (simp add: q)
    show ?thesis
      by (simp add: mongo_create_def Let_def insertDocument_foreign [OF own] ex_insertOne_def
          docToCrudItem_def asMongoOpError_def nm)
  qed
  from m e o p c show ?thesis
    by (intro conjI)
qed

text \<open>
  Claim C2, amended. \<open>create(P)\<close> returns a record whose \<open>id\<close> is the generated id,
  whose \<open>createdAt\<close> and \<open>updatedAt\<close> are the same clock reading, and whose remaining
  fields are: in the memory store and the file store every own field of \<open>P\<close> other than
  \<open>id\<close>, \<open>createdAt\<close>, \<open>updatedAt\<close>, declared in the schema or not; in the document
  adapter, for a schema none of whose keys names a member of \<open>Object.prototype\<close>, the
  declared schema fields other than those three to which \<open>P\<close> gives a value that is
  neither \<open>undefined\<close> nor \<open>null\<close>, the id being the one the driver reports for the
  inserted document, when \<open>P\<close> gives no value to a declared field \<open>_id\<close>. The relational adapter sends the
  engine one \<open>INSERT\<close> statement with the generated id and the JSON text of \<open>P\<close>
  without \<open>id\<close>, \<open>createdAt\<close> and \<open>updatedAt\<close>, and returns the row the engine
  returns, converted: when that row carries the generated id, one date in both timestamp
  columns and a document without those three names, the record has the generated id, equal
  \<open>createdAt\<close> and \<open>updatedAt\<close>, and the fields of the row's document. A client-sent
  \<open>id\<close>, \<open>createdAt\<close> or \<open>updatedAt\<close> has no influence on the record.
\<close>

theorem C2_create_record:
  "(\<exists>item. mem_create items p uuid now = (Map_set uuid item items, item) \<and>
           item_id item = uuid \<and>
           item ''id'' = Some (JStr uuid) \<and>
           item ''createdAt'' = Some (JStr now) \<and>
           item ''updatedAt'' = Some (JStr now) \<and>
           (\<forall>k. k \<notin> {''id'', ''createdAt'', ''updatedAt''} \<longrightarrow> item k = own_props p k)) \<and>
   (\<exists>files'. json_create env st p uuid now ms =
      Inr ((files', fst (mem_create (snd st) p uuid now)), snd (mem_create (snd st) p uuid now))) \<and>
   (protoFree sch \<longrightarrow>
      (\<forall>k. map_of (pickStructuredInsert sch p) k =
         (if k \<in> set (schema_keys sch) \<and> k \<notin> {''id'', ''createdAt'', ''updatedAt''} then
            (case own_props p k of
               None \<Rightarrow> None | Some JUndefined \<Rightarrow> None | Some JNull \<Rightarrow> None
             | Some v \<Rightarrow> Some v)
          else None))) \<and>
   (map_of (pickStructuredInsert (model_schema model) p) ''_id'' = None \<and>
    insertOne \<lparr>doc_id = Some (ObjectId fresh), createdAt = ts, updatedAt = ts,
               rest = map_of (pickStructuredInsert (model_schema model) p)\<rparr>
      = Inr (ObjectId oid) \<longrightarrow>
      (\<exists>item. mongo_create rt model (Inr ()) insertOne p ts fresh = Inr item \<and>
           item ''id'' = Some (JStr (toHexString rt oid)) \<and>
           item ''createdAt'' = Some (JStr (toISOString rt ts)) \<and>
           item ''updatedAt'' = Some (JStr (toISOString rt ts)) \<and>
           (\<forall>k. k \<notin> {''id'', ''createdAt'', ''updatedAt''} \<longrightarrow>
                item k = map_of (pickStructuredInsert (model_schema model) p) k))) \<and>
   (\<forall>k. sanitizeClientPayload p k =
      (if k \<in> {''id'', ''createdAt'', ''updatedAt''} then None else own_props p k)) \<and>
   sql_insert fullName =
     ''INSERT INTO '' @ fullName @
     '' (id, data) VALUES ($1, $2::jsonb) RETURNING id, created_at, updated_at, data'' \<and>
   (q (sql_insert fullName) [uuid, pg_stringify prt (sanitizeClientPayload p)] = Inr res \<and>
    rows res = r # rs \<and>
    row_id r = uuid \<and> created_at r = PgDate t \<and> updated_at r = PgDate t \<and>
    data r ''id'' = None \<and> data r ''createdAt'' = None \<and> data r ''updatedAt'' = None \<longrightarrow>
      (\<exists>item. pg_create prt model fullName (Inr ()) (Inr q) clock p uuid = Inr item \<and>
           item ''id'' = Some (JStr uuid) \<and>
           item ''createdAt'' = Some (JStr (pg_toISOString prt t)) \<and>
           item ''updatedAt'' = Some (JStr (pg_toISOString prt t)) \<and>
           (\<forall>k. k \<notin> {''id'', ''createdAt'', ''updatedAt''} \<longrightarrow> item k = data r k))) \<and>
   pg_create prt model fullName ready pool clock p uuid =
     pg_create prt model fullName ready pool clock (JObj (sanitizeClientPayload p)) uuid"
proof -
  let ?item = "[''id'' \<mapsto> JStr uuid, ''createdAt'' \<mapsto> JStr now, ''updatedAt'' \<mapsto> JStr now]
                 ++ sanitizeClientPayload p"
  have m: "\<exists>item. mem_create items p uuid now = (Map_set uuid item items, item) \<and>
           item_id item = uuid \<and>
           item ''id'' = Some (JStr uuid) \<and>
           item ''createdAt'' = Some (JStr now) \<and>
           item ''updatedAt'' = Some (JStr now) \<and>
           (\<forall>k. k \<notin> {''id'', ''createdAt'', ''updatedAt''} \<longrightarrow> item k = own_props p k)"
  proof (intro exI [of _ ?item] conjI allI impI)
    show "mem_create items p uuid now = (Map_set uuid ?item items, ?item)"
      by (rule mem_create_eq)
    show "item_id ?item = uuid"
      by (rule create_item_id)
    show "?item ''id'' = Some (JStr uuid)" "?item ''createdAt'' = Some (JStr now)"
      "?item ''updatedAt'' = Some (JStr now)"
      by (rule created_fields)+
    show "?item k = own_props p k" if "k \<notin> {''id'', ''createdAt'', ''updatedAt''}" for k
      using that by (rule created_other)
  qed
  have pk: "protoFree sch \<longrightarrow>
      (\<forall>k. map_of (pickStructuredInsert sch p) k =
         (if k \<in> set (schema_keys sch) \<and> k \<notin> {''id'', ''createdAt'', ''updatedAt''} then
            (case own_props p k of
               None \<Rightarrow> None | Some JUndefined \<Rightarrow> None | Some JNull \<Rightarrow> None
             | Some v \<Rightarrow> Some v)
          else None))"
    by (intro impI allI) (rule pick_fields)
  have mg: "map_of (pickStructuredInsert (model_schema model) p) ''_id'' = None \<and>
    insertOne \<lparr>doc_id = Some (ObjectId fresh), createdAt = ts, updatedAt = ts,
               rest = map_of (pickStructuredInsert (model_schema model) p)\<rparr>
      = Inr (ObjectId oid) \<longrightarrow>
      (\<exists>item. mongo_create rt model (Inr ()) insertOne p ts fresh = Inr item \<and>
           item ''id'' = Some (JStr (toHexString rt oid)) \<and>
           item ''createdAt'' = Some (JStr (toISOString rt ts)) \<and>
           item ''updatedAt'' = Some (JStr (toISOString rt ts)) \<and>
           (\<forall>k. k \<notin> {''id'', ''createdAt'', ''updatedAt''} \<longrightarrow>
                item k = map_of (pickStructuredInsert (model_schema model) p) k))"
    by (intro impI, elim conjE) (rule mongo_create_fields)
  have sn: "\<forall>k. sanitizeClientPayload p k =
      (if k \<in> {''id'', ''createdAt'', ''updatedAt''} then None else own_props p k)"
    by (intro allI) (rule sanitize_fields)
  have pg: "q (sql_insert fullName) [uuid, pg_stringify prt (sanitizeClientPayload p)] = Inr res \<and>
    rows res = r # rs \<and>
    row_id r = uuid \<and> created_at r = PgDate t \<and> updated_at r = PgDate t \<and>
    data r ''id'' = None \<and> data r ''createdAt'' = None \<and> data r ''updatedAt'' = None \<longrightarrow>
      (\<exists>item. pg_create prt model fullName (Inr ()) (Inr q) clock p uuid = Inr item \<and>
           item ''id'' = Some (JStr uuid) \<and>
           item ''createdAt'' = Some (JStr (pg_toISOString prt t)) \<and>
           item ''updatedAt'' = Some (JStr (pg_toISOString prt t)) \<and>
           (\<forall>k. k \<notin> {''id'', ''createdAt'', ''updatedAt''} \<longrightarrow> item k = data r k))"
    by (intro impI, elim conjE) (rule pg_create_fields)
  have ps: "pg_create prt model fullName ready pool clock p uuid =
     pg_create prt model fullName ready pool clock (JObj (sanitizeClientPayload p)) uuid"
    by (rule pg_create_sanitize) (simp add: sanitize_idem)
  from m json_create_as_mem [of env st p uuid now ms] pk mg sn sql_insert_text [of fullName] pg ps
  show ?thesis by (intro conjI)
qed

theorem C2_witness:
  "(\<exists>item. mem_create createInMemoryStore ex_payload ''u1'' ex_time
             = (Map_set ''u1'' item createInMemoryStore, item) \<and>
           item_id item = ''u1'' \<and>
           item ''id'' = Some (JStr ''u1'') \<and>
           item ''createdAt'' = Some (JStr ex_time) \<and>
           item ''updatedAt'' = Some (JStr ex_time) \<and>
           item ''title'' = Some (JStr ''Buy milk'') \<and>
           item ''done'' = Some (JBool False)) \<and>
   protoFree (model_schema ex_model) \<and>
   map_of (pickStructuredInsert (model_schema ex_model) ex_payload) ''title'' = Some (JStr ''Buy milk'') \<and>
   map_of (pickStructuredInsert (model_schema ex_model) ex_payload) ''id'' = None \<and>
   map_of (pickStructuredInsert (model_schema ex_model) ex_payload) ''_id'' = None \<and>
   (\<exists>item. mongo_create ex_rt ex_model (Inr ()) ex_insertOne ex_payload 7 ex_oid = Inr item \<and>
           item ''id'' = Some (JStr ex_oid) \<and>
           item ''createdAt'' = item ''updatedAt'' \<and>
           item ''title'' = Some (JStr ''Buy milk'')) \<and>
   ex_query (sql_insert ex_fullName) [''u1'', pg_stringify ex_prt (sanitizeClientPayload ex_payload)]
     = Inr \<lparr>rows = [ex_row], rowCount = Some 1\<rparr> \<and>
   (\<exists>item. pg_create ex_prt ex_model ex_fullName (Inr ()) (Inr ex_query) 9 ex_payload ''u1''
             = Inr item \<and>
           item ''id'' = Some (JStr ''u1'') \<and>
           item ''createdAt'' = item ''updatedAt'' \<and>
           item ''title'' = Some (JStr ''Buy milk''))"
proof -
  note T = C2_create_record
    [where items = createInMemoryStore and p = ex_payload and uuid = "''u1''" and now = ex_time
       and sch = "model_schema ex_model" and model = ex_model and insertOne = ex_insertOne
       and fresh = ex_oid and ts = 7 and oid = ex_oid and rt = ex_rt
       and q = ex_query and fullName = ex_fullName and prt = ex_prt
       and res = "\<lparr>rows = [ex_row], rowCount = Some 1\<rparr>" and r = ex_row and rs = "[]"
       and t = 7 and clock = 9]
  have "\<exists>item. mem_create createInMemoryStore ex_payload ''u1'' ex_time
             = (Map_set ''u1'' item createInMemoryStore, item) \<and>
           item_id item = ''u1'' \<and>
           item ''id'' = Some (JStr ''u1'') \<and>
           item ''createdAt'' = Some (JStr ex_time) \<and>
           item ''updatedAt'' = Some (JStr ex_time) \<and>
           (\<forall>k. k \<notin> {''id'', ''createdAt'', ''updatedAt''} \<longrightarrow> item k = own_props ex_payload k)"
    by (rule T [THEN conjunct1])
  then obtain item where
    it: "mem_create createInMemoryStore ex_payload ''u1'' ex_time
             = (Map_set ''u1'' item createInMemoryStore, item)"
        "item_id item = ''u1''" "item ''id'' = Some (JStr ''u1'')"
        "item ''createdAt'' = Some (JStr ex_time)" "item ''updatedAt'' = Some (JStr ex_time)"
    and other: "\<forall>k. k \<notin> {''id'', ''createdAt'', ''updatedAt''} \<longrightarrow> item k = own_props ex_payload k"
    by blast
  from other [THEN spec, of "''title''"] other [THEN spec, of "''done''"]
  have td: "item ''title'' = Some (JStr ''Buy milk'')" "item ''done'' = Some (JBool False)"
    by (simp_all add: ex_payload_def)
  from it td have mem: "\<exists>item. mem_create createInMemoryStore ex_payload ''u1'' ex_time
             = (Map_set ''u1'' item createInMemoryStore, item) \<and>
           item_id item = ''u1'' \<and>
           item ''id'' = Some (JStr ''u1'') \<and>
           item ''createdAt'' = Some (JStr ex_time) \<and>
           item ''updatedAt'' = Some (JStr ex_time) \<and>
           item ''title'' = Some (JStr ''Buy milk'') \<and>
           item ''done'' = Some (JBool False)"
    by (intro exI [of _ item] conjI)
  have pf: "protoFree (model_schema ex_model)"
    by (simp add: protoFree_def schema_keys_def ex_model_def objectPrototypeKeys_def
        objectPrototypeFunctions_def)
  have pk: "map_of (pickStructuredInsert (model_schema ex_model) ex_payload) k =
      (if k \<in> set (schema_keys (model_schema ex_model)) \<and> k \<notin> {''id'', ''createdAt'', ''updatedAt''} then
         (case own_props ex_payload k of
            None \<Rightarrow> None | Some JUndefined \<Rightarrow> None | Some JNull \<Rightarrow> None | Some v \<Rightarrow> Some v)
       else None)" for k
    by (rule T [THEN conjunct2, THEN conjunct2, THEN conjunct1, THEN mp, OF pf, THEN spec])
  have p1: "map_of (pickStructuredInsert (model_schema ex_model) ex_payload) ''title''
      = Some (JStr ''Buy milk'')"
    by (subst pk) (simp add: schema_keys_def ex_model_def ex_payload_def)
  have p2: "map_of (pickStructuredInsert (model_schema ex_model) ex_payload) ''id'' = None"
    by (subst pk) simp
  have ni: "map_of (pickStructuredInsert (model_schema ex_model) ex_payload) ''_id'' = None"
    by (subst pk) (simp add: schema_keys_def ex_model_def)
  have ins: "ex_insertOne \<lparr>doc_id = Some (ObjectId ex_oid), createdAt = 7, updatedAt = 7,
               rest = map_of (pickStructuredInsert (model_schema ex_model) ex_payload)\<rparr>
            = Inr (ObjectId ex_oid)"
    by (simp add: ex_insertOne_def)
  have "\<exists>item. mongo_create ex_rt ex_model (Inr ()) ex_insertOne ex_payload 7 ex_oid = Inr item \<and>
           item ''id'' = Some (JStr (toHexString ex_rt ex_oid)) \<and>
           item ''createdAt'' = Some (JStr (toISOString ex_rt 7)) \<and>
           item ''updatedAt'' = Some (JStr (toISOString ex_rt 7)) \<and>
           (\<forall>k. k \<notin> {''id'', ''createdAt'', ''updatedAt''} \<longrightarrow>
                item k = map_of (pickStructuredInsert (model_schema ex_model) ex_payload) k)"
    by (rule T [THEN conjunct2, THEN conjunct2, THEN conjunct2, THEN conjunct1, THEN mp, OF conjI [OF ni ins]])
  then obtain d where
    d: "mongo_create ex_rt ex_model (Inr ()) ex_insertOne ex_payload 7 ex_oid = Inr d"
       "d ''id'' = Some (JStr (toHexString ex_rt ex_oid))"
       "d ''createdAt'' = Some (JStr (toISOString ex_rt 7))"
       "d ''updatedAt'' = Some (JStr (toISOString ex_rt 7))"
    and dother: "\<forall>k. k \<notin> {''id'', ''createdAt'', ''updatedAt''} \<longrightarrow>
                d k = map_of (pickStructuredInsert (model_schema ex_model) ex_payload) k"
    by blast
  from dother [THEN spec, of "''title''"] p1 have dt: "d ''title'' = Some (JStr ''Buy milk'')"
    by simp
  from d(2) have di: "d ''id'' = Some (JStr ex_oid)"
    by (simp add: ex_rt_def)
  from d(3,4) have dc: "d ''createdAt'' = d ''updatedAt''"
    by simp
  from d(1) di dc dt
  have mongo: "\<exists>item. mongo_create ex_rt ex_model (Inr ()) ex_insertOne ex_payload 7 ex_oid = Inr item \<and>
           item ''id'' = Some (JStr ex_oid) \<and>
           item ''createdAt'' = item ''updatedAt'' \<and>
           item ''title'' = Some (JStr ''Buy milk'')"
    by (intro exI [of _ d] conjI)
  have qi: "ex_query (sql_insert ex_fullName)
      [''u1'', pg_stringify ex_prt (sanitizeClientPayload ex_payload)]
     = Inr \<lparr>rows = [ex_row], rowCount = Some 1\<rparr>"
    by (simp add: ex_query_def ex_prt_def sanitizeClientPayload_def ex_payload_def)
  have rw: "rows \<lparr>rows = [ex_row], rowCount = Some 1\<rparr> = ex_row # []"
    by simp
  have rowf: "row_id ex_row = ''u1''" "created_at ex_row = PgDate 7" "updated_at ex_row = PgDate 7"
    "data ex_row ''id'' = None" "data ex_row ''createdAt'' = None" "data ex_row ''updatedAt'' = None"
    by (simp_all add: ex_row_def)
  have "\<exists>item. pg_create ex_prt ex_model ex_fullName (Inr ()) (Inr ex_query) 9 ex_payload ''u1''
             = Inr item \<and>
           item ''id'' = Some (JStr ''u1'') \<and>
           item ''createdAt'' = Some (JStr (pg_toISOString ex_prt 7)) \<and>
           item ''updatedAt'' = Some (JStr (pg_toISOString ex_prt 7)) \<and>
           (\<forall>k. k \<notin> {''id'', ''createdAt'', ''updatedAt''} \<longrightarrow> item k = data ex_row k)"
    by (rule T [THEN conjunct2, THEN conjunct2, THEN conjunct2, THEN conjunct2, THEN conjunct2, THEN conjunct2, THEN conjunct1, THEN mp,
          OF conjI [OF qi conjI [OF rw conjI [OF rowf(1) conjI [OF rowf(2) conjI [OF rowf(3)
             conjI [OF rowf(4) conjI [OF rowf(5) rowf(6)]]]]]]]])
  then obtain e where
    e: "pg_create ex_prt ex_model ex_fullName (Inr ()) (Inr ex_query) 9 ex_payload ''u1'' = Inr e"
       "e ''id'' = Some (JStr ''u1'')"
       "e ''createdAt'' = Some (JStr (pg_toISOString ex_prt 7))"
       "e ''updatedAt'' = Some (JStr (pg_toISOString ex_prt 7))"
    and eother: "\<forall>k. k \<notin> {''id'', ''createdAt'', ''updatedAt''} \<longrightarrow> e k = data ex_row k"
    by blast
  from eother [THEN spec, of "''title''"] have et: "e ''title'' = Some (JStr ''Buy milk'')"
    by (simp add: ex_row_def)
  from e(3,4) have ec: "e ''createdAt'' = e ''updatedAt''"
    by simp
  from e(1,2) ec et
  have pg: "\<exists>item. pg_create ex_prt ex_model ex_fullName (Inr ()) (Inr ex_query) 9 ex_payload ''u1''
             = Inr item \<and>
           item ''id'' = Some (JStr ''u1'') \<and>
           item ''createdAt'' = item ''updatedAt'' \<and>
           item ''title'' = Some (JStr ''Buy milk'')"
    by (intro exI [of _ e] conjI)
  from mem pf p1 p2 ni mongo qi pg show ?thesis
    by (intro conjI)
qed


section \<open>Non-object payloads\<close>













section \<open>Loading and flushing the file store\<close>


















section \<open>The bootstrap memo\<close>

lemma memo_ok_empty: "memo_ok emptyMemo"
  by (simp add: memo_ok_def emptyMemo_def live_def)

lemma memo_ok_ensure:
  assumes "memo_ok m"
  shows "memo_ok (snd (ensure k m))"
proof (cases "map_of (cache m) k")
  case (Some p)
  with assms show ?thesis by (simp add: ensure_def)
next
  case None
  let ?n = "length (promises m)"
  let ?m' = "m\<lparr>promises := promises m @ [(k, Pending)], cache := AList.update k ?n (cache m)\<rparr>"
  from None have e: "snd (ensure k m) = ?m'"
    by (simp add: ensure_def Let_def)
  have l: "live ?m' p = (p = ?n \<or> live m p)" for p
    by (auto simp: live_def nth_append)
  have ko: "key_of ?m' p = (if p = ?n then k else key_of m p)" if "p \<le> ?n" for p
    using that by (auto simp: key_of_def nth_append)
  have lt: "live m p \<Longrightarrow> p < ?n" for p
    by (simp add: live_def)
  have "memo_ok ?m'"
    unfolding memo_ok_def
  proof (rule conjI; intro allI impI)
    fix k' p
    assume c: "map_of (cache ?m') k' = Some p"
    show "live ?m' p \<and> key_of ?m' p = k'"
    proof (cases "k' = k")
      case True
      with c have "p = ?n" by (simp add: update_conv')
      with True show ?thesis by (simp add: l ko)
    next
      case False
      with c have "map_of (cache m) k' = Some p" by (simp add: update_conv')
      with assms have "live m p" "key_of m p = k'" by (auto simp: memo_ok_def)
      then show ?thesis using lt [of p] by (simp add: l ko)
    qed
  next
    fix p
    assume lp: "live ?m' p"
    show "map_of (cache ?m') (key_of ?m' p) = Some p"
    proof (cases "p = ?n")
      case True
      then show ?thesis by (simp add: ko update_conv')
    next
      case False
      with lp have lm: "live m p" by (simp add: l)
      with assms have c: "map_of (cache m) (key_of m p) = Some p" by (simp add: memo_ok_def)
      with None have "key_of m p \<noteq> k" by auto
      with c lm lt [of p] show ?thesis by (simp add: ko update_conv')
    qed
  qed
  with e show ?thesis by simp
qed

lemma memo_ok_settle:
  assumes "memo_ok m"
  shows "memo_ok (settle p ok m)"
proof (cases "p < length (promises m) \<and> snd (promises m ! p) = Pending")
  case False
  with assms show ?thesis by (auto simp: settle_def)
next
  case True
  then have lp: "live m p" by (simp add: live_def)
  with assms have cp: "map_of (cache m) (key_of m p) = Some p" by (simp add: memo_ok_def)
  show ?thesis
  proof (cases ok)
    case ok: True
    let ?m' = "m\<lparr>promises := (promises m)[p := (key_of m p, Fulfilled)]\<rparr>"
    from True ok have e: "settle p ok m = ?m'"
      by (simp add: settle_def Let_def key_of_def)
    have l: "live ?m' q = live m q" for q
      using True by (auto simp: live_def nth_list_update)
    have k: "key_of ?m' q = key_of m q" if "q < length (promises m)" for q
      using that True by (cases "q = p") (simp_all add: key_of_def)
    have "memo_ok ?m'"
      unfolding memo_ok_def
    proof (rule conjI; intro allI impI)
      fix k' q
      assume "map_of (cache ?m') k' = Some q"
      then have "map_of (cache m) k' = Some q" by simp
      with assms have lq: "live m q" and kq: "key_of m q = k'" by (auto simp: memo_ok_def)
      from lq have "q < length (promises m)" by (simp add: live_def)
      with lq kq show "live ?m' q \<and> key_of ?m' q = k'"
        by (simp add: l k)
    next
      fix q
      assume "live ?m' q"
      then have lq: "live m q" by (simp add: l)
      with assms have cq: "map_of (cache m) (key_of m q) = Some q" by (simp add: memo_ok_def)
      from lq have "q < length (promises m)" by (simp add: live_def)
      with cq show "map_of (cache ?m') (key_of ?m' q) = Some q"
        by (simp add: k)
    qed
    with e show ?thesis by simp
  next
    case no: False
    let ?m' = "m\<lparr>promises := (promises m)[p := (key_of m p, Rejected)],
                 cache := AList.delete (key_of m p) (cache m)\<rparr>"
    from True no have e: "settle p ok m = ?m'"
      by (simp add: settle_def Let_def key_of_def)
    have l: "live ?m' q = (q \<noteq> p \<and> live m q)" for q
      using True by (auto simp: live_def nth_list_update)
    have k: "key_of ?m' q = key_of m q" if "q < length (promises m)" for q
      using that True by (cases "q = p") (simp_all add: key_of_def)
    have "memo_ok ?m'"
      unfolding memo_ok_def
    proof (rule conjI; intro allI impI)
      fix k' q
      assume c: "map_of (cache ?m') k' = Some q"
      then have ne: "k' \<noteq> key_of m p" and cq: "map_of (cache m) k' = Some q"
        by (auto simp: delete_conv' split: if_splits)
      from cq assms have lq: "live m q" and kq: "key_of m q = k'" by (auto simp: memo_ok_def)
      with ne have "q \<noteq> p" by auto
      moreover from lq have "q < length (promises m)" by (simp add: live_def)
      ultimately show "live ?m' q \<and> key_of ?m' q = k'"
        using lq kq by (simp add: l k)
    next
      fix q
      assume "live ?m' q"
      then have qp: "q \<noteq> p" and lq: "live m q" by (simp_all add: l)
      with assms have cq: "map_of (cache m) (key_of m q) = Some q" by (simp add: memo_ok_def)
      with cp qp have "key_of m q \<noteq> key_of m p" by auto
      moreover from lq have "q < length (promises m)" by (simp add: live_def)
      ultimately show "map_of (cache ?m') (key_of ?m' q) = Some q"
        using cq by (simp add: k delete_conv')
    qed
    with e show ?thesis by simp
  qed
qed

lemma memo_ok_pg_step: "memo_ok m \<Longrightarrow> memo_ok (pg_step sch m ev)"
  by (cases ev) (simp_all add: pg_step_def ensureTable_def memo_ok_ensure memo_ok_settle)

lemma memo_ok_mongo_step: "memo_ok m \<Longrightarrow> memo_ok (mongo_step pre m ev)"
  by (cases ev) (simp_all add: mongo_step_def ensureCollection_def memo_ok_ensure memo_ok_settle)

lemma memo_ok_foldl_pg: "memo_ok m \<Longrightarrow> memo_ok (foldl (pg_step sch) m evs)"
  by (induction evs arbitrary: m) (simp_all add: memo_ok_pg_step)

lemma memo_ok_foldl_mongo: "memo_ok m \<Longrightarrow> memo_ok (foldl (mongo_step pre) m evs)"
  by (induction evs arbitrary: m) (simp_all add: memo_ok_mongo_step)

lemma memo_ok_pg_run: "memo_ok (pg_run sch evs)"
  by (simp add: pg_run_def memo_ok_foldl_pg memo_ok_empty)

lemma memo_ok_mongo_run: "memo_ok (mongo_run pre evs)"
  by (simp add: mongo_run_def memo_ok_foldl_mongo memo_ok_empty)

lemma live_unique:
  "memo_ok m \<Longrightarrow> live m p \<Longrightarrow> live m q \<Longrightarrow> key_of m p = key_of m q \<Longrightarrow> p = q"
  by (metis memo_ok_def option.inject)

lemma cached_hit:
  assumes "memo_ok m" and "map_of (cache m) key = Some p"
  shows "live m p \<and> key_of m p = key \<and> ensure key m = (p, m)"
  using assms by (simp add: memo_ok_def ensure_def)

lemma cache_miss:
  assumes ok: "memo_ok m" and none: "map_of (cache m) key = None"
  shows "(\<forall>p. live m p \<longrightarrow> key_of m p \<noteq> key) \<and>
         fst (ensure key m) = length (promises m) \<and>
         promises (snd (ensure key m)) = promises m @ [(key, Pending)] \<and>
         map_of (cache (snd (ensure key m))) key = Some (length (promises m)) \<and>
         ensure key (snd (ensure key m)) = (length (promises m), snd (ensure key m))"
proof -
  have a: "\<forall>p. live m p \<longrightarrow> key_of m p \<noteq> key"
  proof (intro allI impI)
    fix p
    assume "live m p"
    with ok have "map_of (cache m) (key_of m p) = Some p" by (simp add: memo_ok_def)
    with none show "key_of m p \<noteq> key" by auto
  qed
  from none have e: "ensure key m =
      (length (promises m),
       m\<lparr>promises := promises m @ [(key, Pending)],
         cache := AList.update key (length (promises m)) (cache m)\<rparr>)"
    by (simp add: ensure_def Let_def)
  then have c: "map_of (cache (snd (ensure key m))) key = Some (length (promises m))"
    by (simp add: update_conv')
  then have "ensure key (snd (ensure key m)) = (length (promises m), snd (ensure key m))"
    by (simp add: ensure_def)
  with a e c show ?thesis by simp
qed

lemma settle_pending:
  assumes ok: "memo_ok m" and p: "p < length (promises m)" "snd (promises m ! p) = Pending"
  shows "map_of (cache (settle p False m)) (key_of m p) = None \<and>
         \<not> live (settle p False m) p \<and>
         map_of (cache (settle p True m)) (key_of m p) = Some p \<and>
         snd (promises (settle p True m) ! p) = Fulfilled"
proof -
  from p have "live m p" by (simp add: live_def)
  with ok have "map_of (cache m) (key_of m p) = Some p" by (simp add: memo_ok_def)
  with p show ?thesis
    by (simp add: settle_def Let_def key_of_def live_def delete_conv')
qed

lemma fulfilled_ensure:
  "p < length (promises m) \<Longrightarrow> promises m ! p = (k, Fulfilled) \<Longrightarrow>
   p < length (promises (snd (ensure key m))) \<and> promises (snd (ensure key m)) ! p = (k, Fulfilled)"
  by (simp add: ensure_def Let_def nth_append split: option.splits)

lemma fulfilled_settle:
  "p < length (promises m) \<Longrightarrow> promises m ! p = (k, Fulfilled) \<Longrightarrow>
   p < length (promises (settle q ok m)) \<and> promises (settle q ok m) ! p = (k, Fulfilled)"
  by (cases "q = p") (auto simp: settle_def Let_def)

lemma fulfilled_foldl_pg:
  "p < length (promises m) \<Longrightarrow> promises m ! p = (k, Fulfilled) \<Longrightarrow>
   p < length (promises (foldl (pg_step sch) m evs)) \<and>
   promises (foldl (pg_step sch) m evs) ! p = (k, Fulfilled)"
proof (induction evs arbitrary: m)
  case Nil
  then show ?case by simp
next
  case (Cons ev evs)
  from Cons.prems have "p < length (promises (pg_step sch m ev)) \<and>
      promises (pg_step sch m ev) ! p = (k, Fulfilled)"
    by (cases ev) (simp_all add: pg_step_def ensureTable_def fulfilled_ensure fulfilled_settle)
  then show ?case using Cons.IH by simp
qed

lemma fulfilled_foldl_mongo:
  "p < length (promises m) \<Longrightarrow> promises m ! p = (k, Fulfilled) \<Longrightarrow>
   p < length (promises (foldl (mongo_step pre) m evs)) \<and>
   promises (foldl (mongo_step pre) m evs) ! p = (k, Fulfilled)"
proof (induction evs arbitrary: m)
  case Nil
  then show ?case by simp
next
  case (Cons ev evs)
  from Cons.prems have "p < length (promises (mongo_step pre m ev)) \<and>
      promises (mongo_step pre m ev) ! p = (k, Fulfilled)"
    by (cases ev) (simp_all add: mongo_step_def ensureCollection_def fulfilled_ensure fulfilled_settle)
  then show ?case using Cons.IH by simp
qed

lemma fulfilled_forever:
  assumes ok: "memo_ok m" and p: "p < length (promises m)" "snd (promises m ! p) = Fulfilled"
  shows "ensure (key_of m p) (foldl (pg_step sch) m later) = (p, foldl (pg_step sch) m later) \<and>
         ensure (key_of m p) (foldl (mongo_step pre) m later') = (p, foldl (mongo_step pre) m later')"
proof -
  have "fst (promises m ! p) = key_of m p"
    by (simp only: key_of_def)
  with p(2) have f: "promises m ! p = (key_of m p, Fulfilled)"
    by (metis prod.collapse)
  have hit: "ensure (key_of m p) m' = (p, m')"
    if ok': "memo_ok m'" and l: "p < length (promises m')"
      and n: "promises m' ! p = (key_of m p, Fulfilled)" for m'
  proof -
    from l n have lv: "live m' p"
      by (simp add: live_def)
    from n have kk: "key_of m' p = key_of m p"
      by (simp add: key_of_def)
    from ok' [unfolded memo_ok_def]
    have "\<forall>q. live m' q \<longrightarrow> map_of (cache m') (key_of m' q) = Some q"
      by (rule conjunct2)
    with lv have "map_of (cache m') (key_of m' p) = Some p"
      by blast
    with kk have "map_of (cache m') (key_of m p) = Some p"
      by simp
    then show ?thesis by (simp add: ensure_def)
  qed
  note pg = fulfilled_foldl_pg [OF p(1) f, of sch later]
  note mg = fulfilled_foldl_mongo [OF p(1) f, of pre later']
  have 1: "ensure (key_of m p) (foldl (pg_step sch) m later) = (p, foldl (pg_step sch) m later)"
    by (rule hit [OF memo_ok_foldl_pg [OF ok] pg [THEN conjunct1] pg [THEN conjunct2]])
  have 2: "ensure (key_of m p) (foldl (mongo_step pre) m later')
           = (p, foldl (mongo_step pre) m later')"
    by (rule hit [OF memo_ok_foldl_mongo [OF ok] mg [THEN conjunct1] mg [THEN conjunct2]])
  from 1 2 show ?thesis by (rule conjI)
qed

text \<open>
  Claim C6. Per adapter, after any history of calls and settlements: at most one bootstrap of
  a key is live (pending or fulfilled), so at most one succeeds; a call that finds an entry
  gets the promise stored there, which is live and was started for that key, and starts
  nothing; a call that finds no entry finds no live bootstrap of the key, starts one, stores
  its pending promise under the key before returning, and the next call gets that promise; a
  pending bootstrap that fails loses its entry and is no longer live, and one that succeeds
  keeps its entry; once a bootstrap is fulfilled, every call for its key after any further
  history gets its promise and starts nothing. \<open>ensureTable\<close> and
  \<open>ensureCollection\<close> are this memo at the key \<open>schema.table\<close> and at the prefixed
  collection name.
\<close>

theorem C6_bootstrap_memo:
  "m = pg_run sch evs \<or> m = mongo_run pre evs \<Longrightarrow>
   (\<forall>p q. live m p \<and> live m q \<and> key_of m p = key_of m q \<longrightarrow> p = q) \<and>
   (\<forall>key p. map_of (cache m) key = Some p \<longrightarrow>
      live m p \<and> key_of m p = key \<and> ensure key m = (p, m)) \<and>
   (\<forall>key. map_of (cache m) key = None \<longrightarrow>
      (\<forall>p. live m p \<longrightarrow> key_of m p \<noteq> key) \<and>
      fst (ensure key m) = length (promises m) \<and>
      promises (snd (ensure key m)) = promises m @ [(key, Pending)] \<and>
      map_of (cache (snd (ensure key m))) key = Some (length (promises m)) \<and>
      ensure key (snd (ensure key m)) = (length (promises m), snd (ensure key m))) \<and>
   (\<forall>p. p < length (promises m) \<and> snd (promises m ! p) = Pending \<longrightarrow>
      map_of (cache (settle p False m)) (key_of m p) = None \<and>
      \<not> live (settle p False m) p \<and>
      map_of (cache (settle p True m)) (key_of m p) = Some p \<and>
      snd (promises (settle p True m) ! p) = Fulfilled) \<and>
   (\<forall>p later. p < length (promises m) \<and> snd (promises m ! p) = Fulfilled \<longrightarrow>
      ensure (key_of m p) (foldl (pg_step sch) m later) = (p, foldl (pg_step sch) m later) \<and>
      ensure (key_of m p) (foldl (mongo_step pre) m later) = (p, foldl (mongo_step pre) m later)) \<and>
   ensureTable sch model m = ensure (sch @ ''.'' @ modelToTableName model) m \<and>
   ensureCollection pre model m =
     ensure ((case pre of None \<Rightarrow> [] | Some s \<Rightarrow> s) @ modelToCollectionName model) m"
proof -
  assume "m = pg_run sch evs \<or> m = mongo_run pre evs"
  then have ok: "memo_ok m"
    using memo_ok_pg_run memo_ok_mongo_run by blast
  have a: "\<forall>p q. live m p \<and> live m q \<and> key_of m p = key_of m q \<longrightarrow> p = q"
    by (intro allI impI, elim conjE) (rule live_unique [OF ok])
  have b: "\<forall>key p. map_of (cache m) key = Some p \<longrightarrow>
      live m p \<and> key_of m p = key \<and> ensure key m = (p, m)"
    by (intro allI impI) (rule cached_hit [OF ok])
  have c: "\<forall>key. map_of (cache m) key = None \<longrightarrow>
      (\<forall>p. live m p \<longrightarrow> key_of m p \<noteq> key) \<and>
      fst (ensure key m) = length (promises m) \<and>
      promises (snd (ensure key m)) = promises m @ [(key, Pending)] \<and>
      map_of (cache (snd (ensure key m))) key = Some (length (promises m)) \<and>
      ensure key (snd (ensure key m)) = (length (promises m), snd (ensure key m))"
    by (intro allI impI) (rule cache_miss [OF ok])
  have d: "\<forall>p. p < length (promises m) \<and> snd (promises m ! p) = Pending \<longrightarrow>
      map_of (cache (settle p False m)) (key_of m p) = None \<and>
      \<not> live (settle p False m) p \<and>
      map_of (cache (settle p True m)) (key_of m p) = Some p \<and>
      snd (promises (settle p True m) ! p) = Fulfilled"
    by (intro allI impI, elim conjE) (rule settle_pending [OF ok])
  have e: "\<forall>p later. p < length (promises m) \<and> snd (promises m ! p) = Fulfilled \<longrightarrow>
      ensure (key_of m p) (foldl (pg_step sch) m later) = (p, foldl (pg_step sch) m later) \<and>
      ensure (key_of m p) (foldl (mongo_step pre) m later) = (p, foldl (mongo_step pre) m later)"
    by (intro allI impI, elim conjE) (rule fulfilled_forever [OF ok])
  have f: "ensureTable sch model m = ensure (sch @ ''.'' @ modelToTableName model) m"
    "ensureCollection pre model m =
       ensure ((case pre of None \<Rightarrow> [] | Some s \<Rightarrow> s) @ modelToCollectionName model) m"
    by (simp_all add: ensureTable_def ensureCollection_def)
  show ?thesis
    by (intro conjI) (rule a b c d e f)+
qed

lemma ex_table_key: "modelToTableName ex_model = ''todos''"
  by (simp add: modelToTableName_def toLowerCase_def ex_model_def)

lemma ex_run: "pg_run ''public'' ex_events = ex_memo"
  by (simp add: pg_run_def ex_events_def pg_step_def ensureTable_def ex_table_key ensure_def
      settle_def emptyMemo_def ex_memo_def Let_def)

lemma ex_run_first:
  "pg_run ''public'' [Ensure ex_model] = \<lparr>cache = [(''public.todos'', 0)],
                                             promises = [(''public.todos'', Pending)]\<rparr>"
  by (simp add: pg_run_def pg_step_def ensureTable_def ex_table_key ensure_def emptyMemo_def Let_def)

theorem C6_witness:
  "pg_run ''public'' ex_events = ex_memo \<and>
   map_of (cache ex_memo) ''public.todos'' = Some 1 \<and>
   live ex_memo 1 \<and> key_of ex_memo 1 = ''public.todos'' \<and>
   ensure ''public.todos'' ex_memo = (1, ex_memo) \<and>
   1 < length (promises ex_memo) \<and> snd (promises ex_memo ! 1) = Fulfilled \<and>
   ensure (key_of ex_memo 1) (foldl (pg_step ''public'') ex_memo [Settle 1 False, Ensure ex_model])
     = (1, foldl (pg_step ''public'') ex_memo [Settle 1 False, Ensure ex_model]) \<and>
   0 < length (promises (pg_run ''public'' [Ensure ex_model])) \<and>
   snd (promises (pg_run ''public'' [Ensure ex_model]) ! 0) = Pending \<and>
   map_of (cache (settle 0 False (pg_run ''public'' [Ensure ex_model])))
     (key_of (pg_run ''public'' [Ensure ex_model]) 0) = None \<and>
   map_of (cache (pg_run ''public'' [])) ''public.todos'' = None \<and>
   fst (ensure ''public.todos'' (pg_run ''public'' [])) = length (promises (pg_run ''public'' []))"
proof -
  have r: "ex_memo = pg_run ''public'' ex_events \<or> ex_memo = mongo_run None ex_events"
    by (simp add: ex_run)
  note c6 = C6_bootstrap_memo [OF r]
  have h1: "map_of (cache ex_memo) ''public.todos'' = Some 1"
    by (simp add: ex_memo_def)
  note hit = c6 [THEN conjunct2, THEN conjunct1, THEN spec, THEN spec, THEN mp, OF h1]
  have h2: "1 < length (promises ex_memo) \<and> snd (promises ex_memo ! 1) = Fulfilled"
    by (simp add: ex_memo_def)
  note forever = c6 [THEN conjunct2, THEN conjunct2, THEN conjunct2, THEN conjunct2, THEN conjunct1,
      THEN spec, THEN spec, THEN mp, OF h2, THEN conjunct1]
  have r1: "pg_run ''public'' [Ensure ex_model] = pg_run ''public'' [Ensure ex_model] \<or>
            pg_run ''public'' [Ensure ex_model] = mongo_run None [Ensure ex_model]"
    by simp
  have h3: "0 < length (promises (pg_run ''public'' [Ensure ex_model])) \<and>
            snd (promises (pg_run ''public'' [Ensure ex_model]) ! 0) = Pending"
    by (simp add: ex_run_first)
  note evict = C6_bootstrap_memo [OF r1, THEN conjunct2, THEN conjunct2, THEN conjunct2,
      THEN conjunct1, THEN spec, THEN mp, OF h3, THEN conjunct1]
  have r0: "pg_run ''public'' [] = pg_run ''public'' [] \<or> pg_run ''public'' [] = mongo_run None []"
    by simp
  have h4: "map_of (cache (pg_run ''public'' [])) ''public.todos'' = None"
    by (simp add: pg_run_def emptyMemo_def)
  note miss = C6_bootstrap_memo [OF r0, THEN conjunct2, THEN conjunct2, THEN conjunct1, THEN spec,
      THEN mp, OF h4, THEN conjunct2, THEN conjunct1]
  show ?thesis
    by (intro conjI) (rule ex_run h1 hit [THEN conjunct1] hit [THEN conjunct2, THEN conjunct1]
        hit [THEN conjunct2, THEN conjunct2] h2 [THEN conjunct1] h2 [THEN conjunct2] forever
        h3 [THEN conjunct1] h3 [THEN conjunct2] evict h4 miss)+
qed

end
